theory Spec2Isabelle
  imports Main "HOL-Library.AList"
begin

section \<open>Values of the host language\<close>

text \<open>
  The cloud functions of \<^verbatim>\<open>WalletService.ts\<close> (second document of the file: the
  Firebase functions \<^verbatim>\<open>authorize\<close>, \<^verbatim>\<open>link\<close>, \<^verbatim>\<open>unlink\<close>, \<^verbatim>\<open>webhook\<close>,
  \<^verbatim>\<open>status\<close>, \<^verbatim>\<open>subscribe\<close>, \<^verbatim>\<open>unsubscribe\<close>, \<^verbatim>\<open>payout\<close>) read request
  payloads typed \<^verbatim>\<open>any\<close>. A payload value is a JSON scalar; a property that is
  not there reads as \<^verbatim>\<open>undefined\<close>, which is \<open>None\<close> here. Numbers are the
  integers (identifiers and epoch times); nested objects and arrays are not read by
  any handler and are left out.
\<close>

datatype json = JNull | JBool bool | JNum int | JStr string

text \<open>
  Decimal digits, as \<^verbatim>\<open>Number.prototype.toString\<close> writes an integer (of
  absolute value below \<^verbatim>\<open>1e21\<close>, from where JavaScript switches to the
  exponent notation; identifiers and epoch times are far below).
\<close>

definition digit_char :: "nat \<Rightarrow> char" where
  "digit_char d = char_of (of_char CHR ''0'' + d)"

fun decimal :: "nat \<Rightarrow> string" where
  "decimal n = (if 10 \<le> n then decimal (n div 10) @ [digit_char (n mod 10)] else [digit_char n])"

definition number_toString :: "int \<Rightarrow> string" where
  "number_toString i = (if 0 \<le> i then decimal (nat i) else CHR ''-'' # decimal (nat (- i)))"

text \<open>Reading digits back; used only to state and prove that the writers are injective.\<close>

definition digit_val :: "char \<Rightarrow> nat" where
  "digit_val c = of_char c - of_char CHR ''0''"

definition nat_of_digits :: "string \<Rightarrow> nat" where
  "nat_of_digits s = foldl (\<lambda>a c. 10 * a + digit_val c) 0 s"

text \<open>
  String conversion of a value, as a template literal \<^verbatim>\<open>`${x}`\<close> and
  \<^verbatim>\<open>'' + x\<close> perform it.
\<close>

fun js_string :: "json option \<Rightarrow> string" where
  "js_string None = ''undefined''"
| "js_string (Some JNull) = ''null''"
| "js_string (Some (JBool b)) = (if b then ''true'' else ''false'')"
| "js_string (Some (JNum n)) = number_toString n"
| "js_string (Some (JStr s)) = s"

text \<open>Truthiness, as \<^verbatim>\<open>if (x)\<close> and \<^verbatim>\<open>!x\<close> test it.\<close>

fun truthy :: "json option \<Rightarrow> bool" where
  "truthy None = False"
| "truthy (Some JNull) = False"
| "truthy (Some (JBool b)) = b"
| "truthy (Some (JNum n)) = (n \<noteq> 0)"
| "truthy (Some (JStr s)) = (s \<noteq> [])"

text \<open>
  \<^verbatim>\<open>encodeURIComponent\<close> on a byte string: every byte but the unreserved marks
  is written as a percent sign and two upper-case hexadecimal digits.
\<close>

definition hex_digit :: "nat \<Rightarrow> char" where
  "hex_digit n = ''0123456789ABCDEF'' ! (n mod 16)"

definition uri_unreserved :: "char \<Rightarrow> bool" where
  "uri_unreserved c =
     (c \<in> set (''ABCDEFGHIJKLMNOPQRSTUVWXYZabcdefghijklmnopqrstuvwxyz0123456789-_.!~*()'' @ [CHR 0x27]))"

definition encodeURIComponent :: "string \<Rightarrow> string" where
  "encodeURIComponent s =
     concat (map (\<lambda>c. if uri_unreserved c then [c]
                       else [CHR ''%'', hex_digit (of_char c div 16), hex_digit (of_char c)]) s)"

section \<open>Time formatting\<close>

text \<open>
  \<^verbatim>\<open>new Date()\<close> is the clock of the invocation; \<^verbatim>\<open>moment(d)\<close> reads its
  local calendar fields. \<open>month\<close> is the calendar month 1..12 (what the token
  \<^verbatim>\<open>MM\<close> prints), \<open>date\<close> the day of the month, \<open>utcOffset\<close> in minutes. The
  year is a year of the common era.
\<close>

record moment =
  year :: nat
  month :: nat
  date :: nat
  hours :: nat
  minutes :: nat
  seconds :: nat
  utcOffset :: int

text \<open>
  moment's \<^verbatim>\<open>zeroFill(number, targetLength)\<close> for a number that is not negative:
  the decimal digits, padded on the left with zeros up to the target length and never
  cut.
\<close>

definition zeroFill :: "nat \<Rightarrow> nat \<Rightarrow> string" where
  "zeroFill number targetLength =
     (let absNumber = decimal number;
          zerosToFill = targetLength - length absNumber
      in replicate zerosToFill CHR ''0'' @ absNumber)"

text \<open>\<^verbatim>\<open>moment(d).format('YYYYMMDD')\<close>\<close>

definition format_YYYYMMDD :: "moment \<Rightarrow> string" where
  "format_YYYYMMDD m = zeroFill (year m) 4 @ zeroFill (month m) 2 @ zeroFill (date m) 2"

text \<open>The token \<^verbatim>\<open>Z\<close>: the offset from UTC as sign, hours, colon, minutes.\<close>

definition format_Z :: "int \<Rightarrow> string" where
  "format_Z off =
     (let a = nat (abs off)
      in (if off < 0 then ''-'' else ''+'') @ zeroFill (a div 60) 2 @ '':'' @ zeroFill (a mod 60) 2)"

text \<open>\<^verbatim>\<open>moment(d).format('YYYY-MM-DD HH:mm:ss Z')\<close>\<close>

definition format_activityAt :: "moment \<Rightarrow> string" where
  "format_activityAt m =
     zeroFill (year m) 4 @ ''-'' @ zeroFill (month m) 2 @ ''-'' @ zeroFill (date m) 2 @ '' '' @
     zeroFill (hours m) 2 @ '':'' @ zeroFill (minutes m) 2 @ '':'' @ zeroFill (seconds m) 2 @ '' '' @
     format_Z (utcOffset m)"

text \<open>A clock reading is a calendar date: month 1..12 and day 1..31.\<close>

definition valid_date :: "moment \<Rightarrow> bool" where
  "valid_date m = (1 \<le> month m \<and> month m \<le> 12 \<and> 1 \<le> date m \<and> date m \<le> 31)"

section \<open>The document store\<close>

text \<open>
  Firestore holds two collections, \<^verbatim>\<open>users\<close> and \<^verbatim>\<open>rewards\<close>. A document is
  a map from field names to values; a collection lists its documents by id.
\<close>

type_synonym doc = "string \<Rightarrow> json option"

type_synonym collection = "(string \<times> doc) list"

record database =
  users :: collection
  rewards :: collection

datatype coll_name = Users | Rewards

fun coll_of :: "coll_name \<Rightarrow> database \<Rightarrow> collection" where
  "coll_of Users db = users db"
| "coll_of Rewards db = rewards db"

fun coll_put :: "coll_name \<Rightarrow> collection \<Rightarrow> database \<Rightarrow> database" where
  "coll_put Users c db = db\<lparr>users := c\<rparr>"
| "coll_put Rewards c db = db\<lparr>rewards := c\<rparr>"

text \<open>
  The calls a handler makes on its collaborators (the store and the HTTP client), in
  the order it makes them: a document read, a document write, a query
  \<^verbatim>\<open>where(field, '==', value).get()\<close>, and an \<^verbatim>\<open>axios.post\<close> with its payload.
\<close>

datatype call =
    DocGet coll_name string
  | DocSet coll_name string
  | QueryGet coll_name string json
  | HttpPost string "(string \<times> string) list"

fun is_write :: "call \<Rightarrow> bool" where
  "is_write (DocSet c i) = True"
| "is_write other = False"

text \<open>
  What a handler can catch: a write the client refuses because a field value is
  \<^verbatim>\<open>undefined\<close> (thrown by \<^verbatim>\<open>set\<close> itself, before anything is sent), a store
  call that is rejected, an HTTP call that is rejected, and the read of a property of
  \<^verbatim>\<open>undefined\<close>.
\<close>

datatype exn = InvalidArgument | StoreRejected call | HttpRejected call | TypeError

text \<open>
  The results of \<^verbatim>\<open>get()\<close> in the Firestore client. A document read
  (\<^verbatim>\<open>DATABASE.doc(path).get()\<close>, as in \<^verbatim>\<open>webhookEventHandler\<close>) gives a
  \<^verbatim>\<open>DocumentSnapshot\<close>, with the properties \<^verbatim>\<open>exists\<close> and \<^verbatim>\<open>data()\<close>.
  A query (\<^verbatim>\<open>collection.where(...).get()\<close>, as in \<^verbatim>\<open>status\<close> and
  \<^verbatim>\<open>payout\<close>) gives a \<^verbatim>\<open>QuerySnapshot\<close>, with the properties
  \<^verbatim>\<open>docs\<close>, \<^verbatim>\<open>empty\<close> and \<^verbatim>\<open>size\<close>, and no \<^verbatim>\<open>exists\<close>. The
  handlers hold both as \<^verbatim>\<open>any\<close>, so reading a property the object does not
  have is not a type error: it gives \<^verbatim>\<open>undefined\<close>.
\<close>

datatype snapshot = DocumentSnapshot "doc option" | QuerySnapshot collection

fun snapshot_exists :: "snapshot \<Rightarrow> json option" where
  "snapshot_exists (DocumentSnapshot d) = Some (JBool (case d of None \<Rightarrow> False | Some x \<Rightarrow> True))"
| "snapshot_exists (QuerySnapshot ds) = None"

fun snapshot_empty :: "snapshot \<Rightarrow> json option" where
  "snapshot_empty (QuerySnapshot ds) = Some (JBool (List.null ds))"
| "snapshot_empty (DocumentSnapshot d) = None"

section \<open>The environment of one invocation\<close>

text \<open>\<^verbatim>\<open>functions.config().strava\<close>\<close>

record strava_conf =
  client_id :: string
  client_secret :: string
  oauth_url :: string
  webhook_url :: string
  verify_token :: string

text \<open>
  \<^verbatim>\<open>res.data\<close> of the token exchange: the athlete object (its fields, when the
  answer has one) and the three credentials.
\<close>

record token_data =
  athlete :: "doc option"
  access_token :: "json option"
  refresh_token :: "json option"
  expires_at :: "json option"

text \<open>
  Everything a handler takes from outside the request and the store:
  \<^item> \<open>address_ok raw\<close>: \<^verbatim>\<open>Address.createFromRawAddress(raw)\<close> of the SDK returns
    (it throws otherwise);
  \<^item> \<open>strava\<close>: the configuration;
  \<^item> \<open>fails c\<close>: the collaborator call \<open>c\<close> is rejected in this invocation (a store
    that is down, a path the client refuses, a provider that refuses the code);
  \<^item> \<open>token_res\<close>, \<open>subscription_res\<close>: the provider's answers to the two POSTs;
  \<^item> \<open>now\<close>, \<open>now_ms\<close>: the clock, as calendar fields and as \<^verbatim>\<open>valueOf()\<close>.
\<close>

record env =
  address_ok :: "string \<Rightarrow> bool"
  strava :: strava_conf
  fails :: "call \<Rightarrow> bool"
  token_res :: token_data
  subscription_res :: "(string \<times> json) list"
  now :: moment
  now_ms :: int

text \<open>An HTTP request: its method, its query string and its JSON body.\<close>

record request =
  req_method :: string
  query :: "string \<Rightarrow> string option"
  body :: "string \<Rightarrow> json option"

text \<open>
  What a handler answers: \<^verbatim>\<open>sendStatus(n)\<close>, \<^verbatim>\<open>status(n).send(text)\<close>,
  \<^verbatim>\<open>status(n).json(object)\<close> (the object as written, a missing value being
  \<^verbatim>\<open>undefined\<close>) and \<^verbatim>\<open>redirect(n, url)\<close>.
\<close>

datatype response =
    SendStatus nat
  | Send nat string
  | SendJson nat "(string \<times> json option) list"
  | Redirect nat string

fun status_code :: "response \<Rightarrow> nat" where
  "status_code (SendStatus n) = n"
| "status_code (Send n t) = n"
| "status_code (SendJson n obj) = n"
| "status_code (Redirect n url) = n"

text \<open>
  The state a handler works on: the database and the collaborator calls made so far.
\<close>

type_synonym store = "database \<times> call list"

subsection \<open>Store and network primitives\<close>

text \<open>\<^verbatim>\<open>DATABASE.doc(path).get()\<close>\<close>

definition doc_get :: "env \<Rightarrow> coll_name \<Rightarrow> string \<Rightarrow> store \<Rightarrow> (exn + snapshot) \<times> store" where
  "doc_get e c i s =
     (let k = DocGet c i; s' = (fst s, snd s @ [k])
      in if fails e k then (Inl (StoreRejected k), s')
         else (Inr (DocumentSnapshot (map_of (coll_of c (fst s)) i)), s'))"

text \<open>\<^verbatim>\<open>collection.where(field, '==', v).get()\<close>\<close>

definition query_get :: "env \<Rightarrow> coll_name \<Rightarrow> string \<Rightarrow> json \<Rightarrow> store \<Rightarrow> (exn + snapshot) \<times> store" where
  "query_get e c field v s =
     (let k = QueryGet c field v; s' = (fst s, snd s @ [k])
      in if fails e k then (Inl (StoreRejected k), s')
         else (Inr (QuerySnapshot (filter (\<lambda>(i, d). d field = Some v) (coll_of c (fst s)))), s'))"

text \<open>
  The fields of an object literal: a property written with the value
  \<^verbatim>\<open>undefined\<close> has no value.
\<close>

definition fields_of :: "(string \<times> json option) list \<Rightarrow> doc" where
  "fields_of fs = (\<lambda>f. case map_of fs f of None \<Rightarrow> None | Some v \<Rightarrow> v)"

text \<open>The fields stored under an id; a document that is not there has none.\<close>

definition stored :: "collection \<Rightarrow> string \<Rightarrow> doc" where
  "stored c i = (case map_of c i of None \<Rightarrow> Map.empty | Some d \<Rightarrow> d)"

text \<open>
  \<^verbatim>\<open>collection.doc(id).set(fields, { merge: true })\<close>: the client refuses a field
  whose value is \<^verbatim>\<open>undefined\<close>; otherwise the fields given replace the fields of
  the same name and the document's other fields stay. A rejected write leaves the
  store as it was.
\<close>

definition doc_set_merge ::
  "env \<Rightarrow> coll_name \<Rightarrow> string \<Rightarrow> (string \<times> json option) list \<Rightarrow> store \<Rightarrow> (exn + unit) \<times> store" where
  "doc_set_merge e c i fs s =
     (let k = DocSet c i; s' = (fst s, snd s @ [k]);
          old = stored (coll_of c (fst s)) i
      in if list_ex (\<lambda>(f, v). v = None) fs then (Inl InvalidArgument, s')
         else if fails e k then (Inl (StoreRejected k), s')
         else (Inr (), (coll_put c (AList.update i (old ++ fields_of fs) (coll_of c (fst s))) (fst s),
                        snd s @ [k])))"

text \<open>\<^verbatim>\<open>axios.post(url, payload)\<close>, answering \<open>res\<close> when it is not rejected.\<close>

definition axios_post ::
  "env \<Rightarrow> string \<Rightarrow> (string \<times> string) list \<Rightarrow> 'a \<Rightarrow> store \<Rightarrow> (exn + 'a) \<times> store" where
  "axios_post e url payload res s =
     (let k = HttpPost url payload; s' = (fst s, snd s @ [k])
      in if fails e k then (Inl (HttpRejected k), s') else (Inr res, s'))"

section \<open>The cloud functions\<close>

text \<open>
  Each handler takes the environment of its invocation, the request and the store,
  and gives its answer and the store afterwards. The source's order of checks is kept.
\<close>

subsection \<open>authorize\<close>

definition authorize :: "env \<Rightarrow> request \<Rightarrow> store \<Rightarrow> response \<times> store" where
  "authorize e request s =
     (let data = query request
      in case data ''dhealth.address'' of
           None \<Rightarrow> (SendStatus 400, s)
         | Some a \<Rightarrow>
             if \<not> address_ok e a then (SendStatus 400, s)
             else
               let stravaConf = strava e;
                   stravaQuery = ''?''
                     @ ''client_id='' @ client_id stravaConf
                     @ ''&response_type=code''
                     @ ''&approval_prompt=auto''
                     @ ''&scope=activity:read''
                     @ ''&redirect_uri='' @ encodeURIComponent (oauth_url stravaConf)
                     @ ''&state='' @ a
               in (Redirect 301 (''https://www.strava.com/oauth/authorize'' @ stravaQuery), s))"

subsection \<open>link\<close>

text \<open>
  The callback of \<^verbatim>\<open>axios.post(...).then\<close>: reading \<^verbatim>\<open>athlete.id\<close> of an answer
  without athlete throws, and so does \<^verbatim>\<open>set\<close> on an \<^verbatim>\<open>undefined\<close> field; both
  reach the outer \<^verbatim>\<open>catch\<close> (400). A write that is rejected reaches the inner
  \<^verbatim>\<open>catch\<close> (500).
\<close>

definition link_saved :: "env \<Rightarrow> string \<Rightarrow> token_data \<Rightarrow> store \<Rightarrow> response \<times> store" where
  "link_saved e dhpAddress res s =
     (case athlete res of
        None \<Rightarrow> (SendStatus 400, s)
      | Some athlete_obj \<Rightarrow>
          (case doc_set_merge e Users (js_string (athlete_obj ''id''))
                  [(''address'', Some (JStr dhpAddress)),
                   (''athleteId'', athlete_obj ''id''),
                   (''accessToken'', access_token res),
                   (''refreshToken'', refresh_token res),
                   (''accessExpiresAt'', expires_at res),
                   (''linkedAt'', Some (JNum (now_ms e)))] s of
             (Inl InvalidArgument, s') \<Rightarrow> (SendStatus 400, s')
           | (Inl reason, s') \<Rightarrow> (SendStatus 500, s')
           | (Inr user, s') \<Rightarrow> (SendStatus 200, s')))"

definition link :: "env \<Rightarrow> request \<Rightarrow> store \<Rightarrow> response \<times> store" where
  "link e request s =
     (let data = query request
      in if data ''error'' = Some ''access_denied'' then (SendStatus 403, s)
         else
           (case (data ''code'', data ''scope'', data ''state'') of
              (Some stravaCode, Some scope, Some dhpAddress) \<Rightarrow>
                if \<not> address_ok e dhpAddress then (SendStatus 400, s)
                else
                  let stravaConf = strava e
                  in (case axios_post e ''https://www.strava.com/oauth/token''
                            [(''client_id'', client_id stravaConf),
                             (''client_secret'', client_secret stravaConf),
                             (''code'', stravaCode),
                             (''grant_type'', ''authorization_code'')] (token_res e) s of
                        (Inl reason, s') \<Rightarrow> (SendStatus 400, s')
                      | (Inr res, s') \<Rightarrow> link_saved e dhpAddress res s')
            | missing \<Rightarrow> (SendStatus 400, s)))"

subsection \<open>unlink, unsubscribe\<close>

definition unlink :: "env \<Rightarrow> request \<Rightarrow> store \<Rightarrow> response \<times> store" where
  "unlink e request s = (SendStatus 501, s)"

definition unsubscribe :: "env \<Rightarrow> request \<Rightarrow> store \<Rightarrow> response \<times> store" where
  "unsubscribe e request s = (SendStatus 501, s)"

subsection \<open>webhook\<close>

definition webhookSubscriptionHandler :: "env \<Rightarrow> request \<Rightarrow> store \<Rightarrow> response \<times> store" where
  "webhookSubscriptionHandler e request s =
     (let data = query request
      in if data ''hub.mode'' = None \<or> data ''hub.verify_token'' = None then (SendStatus 400, s)
         else
           let token = verify_token (strava e)
           in if data ''hub.mode'' \<noteq> Some ''subscribe'' \<or> data ''hub.verify_token'' \<noteq> Some token
              then (SendStatus 401, s)
              else (SendJson 200 [(''hub.challenge'', map_option JStr (data ''hub.challenge''))], s))"

text \<open>
  The reward key \<^verbatim>\<open>`${formattedDate}-${athleteId}`\<close> of
  \<^verbatim>\<open>webhookEventHandler\<close>, e.g. \<^verbatim>\<open>"20211103-94380856"\<close>.
\<close>

definition rewardsId :: "string \<Rightarrow> json option \<Rightarrow> string" where
  "rewardsId formattedDate athleteId = formattedDate @ ''-'' @ js_string athleteId"

text \<open>
  The body of the \<^verbatim>\<open>try\<close> block of \<^verbatim>\<open>webhookEventHandler\<close>: \<open>Inl\<close> is an
  exception on its way to the \<^verbatim>\<open>catch\<close>, \<open>Inr\<close> the answer of a
  \<^verbatim>\<open>return\<close>.
\<close>

definition webhookEventTry :: "env \<Rightarrow> (string \<Rightarrow> json option) \<Rightarrow> store \<Rightarrow> (exn + response) \<times> store" where
  "webhookEventTry e data s =
     (case doc_get e Users (js_string (data ''owner_id'')) s of
        (Inl reason, s1) \<Rightarrow> (Inl reason, s1)
      | (Inr user, s1) \<Rightarrow>
          if \<not> truthy (snapshot_exists user) then (Inr (Send 200 ''EVENT_IGNORED''), s1)
          else
            (case user of
               DocumentSnapshot (Some user_data) \<Rightarrow>
                 let rewardedDate = now e;
                     formattedDate = format_YYYYMMDD rewardedDate;
                     address = user_data ''address'';
                     athleteId = user_data ''athleteId'';
                     activityId = data ''object_id'';
                     key = rewardsId formattedDate athleteId
                 in (case doc_get e Rewards key s1 of
                       (Inl reason, s2) \<Rightarrow> (Inl reason, s2)
                     | (Inr reward, s2) \<Rightarrow>
                         if truthy (snapshot_exists reward) then (Inr (Send 200 ''EVENT_IGNORED''), s2)
                         else
                           (case doc_set_merge e Rewards key
                                   [(''address'', address),
                                    (''athleteId'', athleteId),
                                    (''activityId'', activityId),
                                    (''isProcessed'', Some (JBool False)),
                                    (''isConfirmed'', Some (JBool False)),
                                    (''rewardDay'', Some (JStr formattedDate)),
                                    (''activityAt'', Some (JStr (format_activityAt rewardedDate)))] s2 of
                              (Inl reason, s3) \<Rightarrow> (Inl reason, s3)
                            | (Inr done_write, s3) \<Rightarrow> (Inr (Send 200 ''EVENT_RECEIVED''), s3)))
             | other \<Rightarrow> (Inl TypeError, s1)))"

definition webhookEventHandler :: "env \<Rightarrow> request \<Rightarrow> store \<Rightarrow> response \<times> store" where
  "webhookEventHandler e request s =
     (let data = body request
      in if data ''object_type'' = None \<or> data ''object_id'' = None
            \<or> data ''aspect_type'' = None \<or> data ''owner_id'' = None
         then (SendStatus 400, s)
         else if data ''object_type'' \<noteq> Some (JStr ''activity'')
                 \<or> data ''aspect_type'' \<noteq> Some (JStr ''create'')
         then (Send 200 ''EVENT_IGNORED'', s)
         else
           (case webhookEventTry e data s of
              (Inr answer, s') \<Rightarrow> (answer, s')
            | (Inl reason, s') \<Rightarrow> (Send 200 ''EVENT_IGNORED'', s')))"

definition webhook :: "env \<Rightarrow> request \<Rightarrow> store \<Rightarrow> response \<times> store" where
  "webhook e request s =
     (if req_method request = ''GET'' then webhookSubscriptionHandler e request s
      else if req_method request = ''POST'' then webhookEventHandler e request s
      else (SendStatus 403, s))"

subsection \<open>status\<close>

definition status :: "env \<Rightarrow> request \<Rightarrow> store \<Rightarrow> response \<times> store" where
  "status e request s =
     (if req_method request \<noteq> ''GET'' then (SendStatus 403, s)
      else
        let data = query request
        in case data ''dhealth.address'' of
             None \<Rightarrow> (SendStatus 400, s)
           | Some a \<Rightarrow>
               if \<not> address_ok e a then (SendStatus 400, s)
               else
                 (case query_get e Users ''address'' (JStr a) s of
                    (Inr user, s') \<Rightarrow>
                      if truthy (snapshot_exists user) then (SendStatus 200, s')
                      else (SendStatus 404, s')
                  | (Inl reason, s') \<Rightarrow> (SendStatus 500, s')))"

subsection \<open>subscribe\<close>

definition subscribe :: "env \<Rightarrow> request \<Rightarrow> store \<Rightarrow> response \<times> store" where
  "subscribe e request s =
     (let stravaConf = strava e
      in case axios_post e ''https://www.strava.com/api/v3/push_subscriptions''
                [(''client_id'', client_id stravaConf),
                 (''client_secret'', client_secret stravaConf),
                 (''callback_url'', webhook_url stravaConf),
                 (''verify_token'', verify_token stravaConf)] (subscription_res e) s of
           (Inr res, s') \<Rightarrow> (SendJson 200 (map (\<lambda>(k, v). (k, Some v)) res), s')
         | (Inl reason, s') \<Rightarrow> (SendStatus 400, s'))"

subsection \<open>payout\<close>

text \<open>
  The scheduled job: it reads the unprocessed rewards and returns \<^verbatim>\<open>null\<close> on an
  empty and on a non-empty result alike (the payout itself is the source's
  \<^verbatim>\<open>//XXX proceed to payout\<close>). A rejected query is not caught.
\<close>

definition payout :: "env \<Rightarrow> store \<Rightarrow> (exn + unit) \<times> store" where
  "payout e s =
     (case query_get e Rewards ''isProcessed'' (JBool False) s of
        (Inl reason, s') \<Rightarrow> (Inl reason, s')
      | (Inr snapshot, s') \<Rightarrow>
          if truthy (snapshot_empty snapshot) then (Inr (), s')
          else (Inr (), s'))"

section \<open>Sequences of invocations\<close>

text \<open>
  The entry points of the deployment. Invocations share nothing but the database;
  each starts with an empty list of calls.
\<close>

datatype operation =
    Authorize request
  | Link request
  | Unlink request
  | Webhook request
  | Status request
  | Subscribe request
  | Unsubscribe request
  | Payout

fun exec :: "env \<Rightarrow> operation \<Rightarrow> database \<Rightarrow> database" where
  "exec e (Authorize r) db = fst (snd (authorize e r (db, [])))"
| "exec e (Link r) db = fst (snd (link e r (db, [])))"
| "exec e (Unlink r) db = fst (snd (unlink e r (db, [])))"
| "exec e (Webhook r) db = fst (snd (webhook e r (db, [])))"
| "exec e (Status r) db = fst (snd (status e r (db, [])))"
| "exec e (Subscribe r) db = fst (snd (subscribe e r (db, [])))"
| "exec e (Unsubscribe r) db = fst (snd (unsubscribe e r (db, [])))"
| "exec e Payout db = fst (snd (payout e (db, [])))"

fun run :: "(env \<times> operation) list \<Rightarrow> database \<Rightarrow> database" where
  "run [] db = db"
| "run ((e, op) # ops) db = run ops (exec e op db)"

text \<open>
  Webhook deliveries one after the other: the answer and the calls of each, and the
  database at the end.
\<close>

fun deliver :: "(env \<times> request) list \<Rightarrow> database \<Rightarrow> (response \<times> call list) list \<times> database" where
  "deliver [] db = ([], db)"
| "deliver ((e, r) # evs) db =
     (case webhook e r (db, []) of
        (answer, (db', cs)) \<Rightarrow>
          (case deliver evs db' of (out, db'') \<Rightarrow> ((answer, cs) # out, db'')))"

section \<open>Vocabulary of the claims\<close>

text \<open>
  The token request of \<^verbatim>\<open>link\<close>, as a call: the POST to the provider's token
  endpoint with the client's id and secret, the code and the grant type.
\<close>

definition token_request :: "env \<Rightarrow> string \<Rightarrow> call" where
  "token_request e stravaCode =
     HttpPost ''https://www.strava.com/oauth/token''
       [(''client_id'', client_id (strava e)),
        (''client_secret'', client_secret (strava e)),
        (''code'', stravaCode),
        (''grant_type'', ''authorization_code'')]"

text \<open>
  The LinkRecord of the specification: the address, the athlete id, the two tokens,
  the expiry and the time of linking.
\<close>

definition link_record :: "string \<Rightarrow> int \<Rightarrow> json \<Rightarrow> json \<Rightarrow> json \<Rightarrow> int \<Rightarrow> doc" where
  "link_record address athleteId accessToken refreshToken accessExpiresAt linkedAt =
     [''address'' \<mapsto> JStr address, ''athleteId'' \<mapsto> JNum athleteId,
      ''accessToken'' \<mapsto> accessToken, ''refreshToken'' \<mapsto> refreshToken,
      ''accessExpiresAt'' \<mapsto> accessExpiresAt, ''linkedAt'' \<mapsto> JNum linkedAt]"

text \<open>
  The RewardRecord of the specification: address and athlete id of the link, the
  activity id of the event, the two flags (both false), the day and the time of
  creation.
\<close>

definition reward_record :: "json \<Rightarrow> json \<Rightarrow> json \<Rightarrow> string \<Rightarrow> string \<Rightarrow> doc" where
  "reward_record address athleteId activityId rewardDay activityAt =
     [''address'' \<mapsto> address, ''athleteId'' \<mapsto> athleteId, ''activityId'' \<mapsto> activityId,
      ''isProcessed'' \<mapsto> JBool False, ''isConfirmed'' \<mapsto> JBool False,
      ''rewardDay'' \<mapsto> JStr rewardDay, ''activityAt'' \<mapsto> JStr activityAt]"

text \<open>
  A POST event passes the shape check when its four fields are there; it is a
  new-activity event when it is of type \<^verbatim>\<open>activity\<close> and aspect \<^verbatim>\<open>create\<close>.
\<close>

definition shape_ok :: "request \<Rightarrow> bool" where
  "shape_ok r = (body r ''object_type'' \<noteq> None \<and> body r ''object_id'' \<noteq> None
                 \<and> body r ''aspect_type'' \<noteq> None \<and> body r ''owner_id'' \<noteq> None)"

definition activity_create :: "request \<Rightarrow> bool" where
  "activity_create r = (body r ''object_type'' = Some (JStr ''activity'')
                        \<and> body r ''aspect_type'' = Some (JStr ''create''))"

text \<open>Two clock readings of the same calendar day.\<close>

definition same_day :: "moment \<Rightarrow> moment \<Rightarrow> bool" where
  "same_day a b = (year a = year b \<and> month a = month b \<and> date a = date b)"

text \<open>
  A delivery of the claim on idempotence: a new-activity POST event of the given
  owner, on the given day, in an invocation whose three store calls (the read of the
  user, the read and the write of the reward of the given athlete) are accepted.
\<close>

definition daily_event :: "json \<Rightarrow> moment \<Rightarrow> json option \<Rightarrow> env \<times> request \<Rightarrow> bool" where
  "daily_event owner day athleteId ev =
     (case ev of (e, r) \<Rightarrow>
        req_method r = ''POST'' \<and> shape_ok r \<and> activity_create r
        \<and> body r ''owner_id'' = Some owner \<and> same_day (now e) day
        \<and> \<not> fails e (DocGet Users (js_string (Some owner)))
        \<and> \<not> fails e (DocGet Rewards (rewardsId (format_YYYYMMDD day) athleteId))
        \<and> \<not> fails e (DocSet Rewards (rewardsId (format_YYYYMMDD day) athleteId)))"

section \<open>Example values\<close>

text \<open>
  A configuration, a clock reading of 3 November 2021, a provider that answers the
  token exchange with athlete 42, and collaborators that reject nothing. The address
  check of the SDK is stood in for by the length of a raw address, 39 characters.
\<close>

definition ex_address :: string where
  "ex_address = ''NCZMZ4DQGQKYFNCZMZ4DQGQKYFNCZMZ4DQGQKYF''"

definition ex_env :: env where
  "ex_env = \<lparr>address_ok = (\<lambda>a. length a = 39),
             strava = \<lparr>client_id = ''1234'', client_secret = ''s3cr3t'',
                       oauth_url = ''https://example.org/link'',
                       webhook_url = ''https://example.org/webhook'',
                       verify_token = ''tok''\<rparr>,
             fails = (\<lambda>c. False),
             token_res = \<lparr>athlete = Some [''id'' \<mapsto> JNum 42], access_token = Some (JStr ''t''),
                          refresh_token = Some (JStr ''r''), expires_at = Some (JNum 123)\<rparr>,
             subscription_res = [(''id'', JNum 1)],
             now = \<lparr>year = 2021, month = 11, date = 3, hours = 9, minutes = 5, seconds = 7,
                    utcOffset = 60\<rparr>,
             now_ms = 1635926707000\<rparr>"

text \<open>The same clock one day later.\<close>

definition ex_next_day :: moment where
  "ex_next_day = (now ex_env)\<lparr>date := 4\<rparr>"

text \<open>
  A linked user (athlete 42), a database that holds this one link and no reward, and
  requests built from their query string or from their JSON body.
\<close>

definition ex_user :: doc where
  "ex_user = [''address'' \<mapsto> JStr ex_address, ''athleteId'' \<mapsto> JNum 42,
              ''accessToken'' \<mapsto> JStr ''t'', ''refreshToken'' \<mapsto> JStr ''r'',
              ''accessExpiresAt'' \<mapsto> JNum 123, ''linkedAt'' \<mapsto> JNum 1635926000000]"

definition ex_db :: database where
  "ex_db = \<lparr>users = [(''42'', ex_user)], rewards = []\<rparr>"

definition ex_get :: "(string \<times> string) list \<Rightarrow> request" where
  "ex_get q = \<lparr>req_method = ''GET'', query = map_of q, body = Map.empty\<rparr>"

definition ex_post :: "(string \<times> json) list \<Rightarrow> request" where
  "ex_post b = \<lparr>req_method = ''POST'', query = Map.empty, body = map_of b\<rparr>"

text \<open>The callback of the specification's example: code, scope, and the address as state.\<close>

definition ex_link_request :: request where
  "ex_link_request = ex_get [(''code'', ''abc''), (''scope'', ''activity:read''), (''state'', ex_address)]"

text \<open>A new-activity event of athlete 42 for the given activity.\<close>

definition ex_event :: "int \<Rightarrow> request" where
  "ex_event activity = ex_post [(''object_type'', JStr ''activity''), (''object_id'', JNum activity),
                                (''aspect_type'', JStr ''create''), (''owner_id'', JNum 42)]"

text \<open>The database after the first such event of the day, for activity 7001.\<close>

definition ex_rewarded :: database where
  "ex_rewarded = ex_db\<lparr>rewards :=
     [(''20211103-42'', reward_record (JStr ex_address) (JNum 42) (JNum 7001) ''20211103''
                          ''2021-11-03 09:05:07 +01:00'')]\<rparr>"

text \<open>A store that rejects every write.\<close>

definition ex_write_fails :: env where
  "ex_write_fails = ex_env\<lparr>fails := is_write\<rparr>"

text \<open>Three deliveries on one day, and a run of deliveries and sweeps.\<close>

definition ex_deliveries :: "(env \<times> request) list" where
  "ex_deliveries = [(ex_env, ex_event 7001), (ex_env, ex_event 7002), (ex_env, ex_event 7003)]"

definition ex_operations :: "(env \<times> operation) list" where
  "ex_operations = [(ex_env, Webhook (ex_event 7001)), (ex_env, Payout),
                    (ex_env, Webhook (ex_event 7002)), (ex_env, Payout)]"

section \<open>Decimal writing is injective\<close>

declare decimal.simps [simp del]

lemma digit_val_digit_char: "d < 10 \<Longrightarrow> digit_val (digit_char d) = d"
  by (simp add: digit_val_def digit_char_def)

lemma digit_char_not_hyphen: "d < 10 \<Longrightarrow> digit_char d \<noteq> CHR ''-''"
proof
  assume "d < 10" and "digit_char d = CHR ''-''"
  then have "(of_char (digit_char d) :: nat) = of_char CHR ''-''" by simp
  with \<open>d < 10\<close> show False by (simp add: digit_char_def)
qed

lemma decimal_no_hyphen: "CHR ''-'' \<notin> set (decimal n)"
proof (induction n rule: decimal.induct)
  case (1 n)
  show ?case
  proof (cases "n < 10")
    case True
    then show ?thesis using digit_char_not_hyphen [of n] by (simp add: decimal.simps [of n])
  next
    case False
    then show ?thesis using 1 digit_char_not_hyphen [of "n mod 10"]
      by (simp add: decimal.simps [of n])
  qed
qed

lemma nat_of_digits_snoc: "nat_of_digits (s @ [c]) = 10 * nat_of_digits s + digit_val c"
  by (simp add: nat_of_digits_def)

lemma nat_of_digits_decimal: "nat_of_digits (decimal n) = n"
proof (induction n rule: decimal.induct)
  case (1 n)
  show ?case
  proof (cases "n < 10")
    case True
    then show ?thesis
      by (simp add: decimal.simps [of n] nat_of_digits_def digit_val_digit_char)
  next
    case False
    then show ?thesis using 1
      by (simp add: decimal.simps [of n] nat_of_digits_snoc digit_val_digit_char)
  qed
qed

lemma decimal_inj: "decimal m = decimal n \<Longrightarrow> m = n"
  by (metis nat_of_digits_decimal)

lemma decimal_nonempty: "decimal n \<noteq> []"
  by (simp add: decimal.simps [of n])

lemma hd_decimal_no_hyphen: "hd (decimal n) \<noteq> CHR ''-''"
  using decimal_no_hyphen [of n] decimal_nonempty [of n]
  by (cases "decimal n") auto

lemma number_toString_inj: "number_toString i = number_toString j \<Longrightarrow> i = j"
proof -
  assume eq: "number_toString i = number_toString j"
  consider "0 \<le> i" "0 \<le> j" | "i < 0" "j < 0" | "0 \<le> i" "j < 0" | "i < 0" "0 \<le> j"
    by linarith
  then show ?thesis
  proof cases
    case 1
    with eq have "decimal (nat i) = decimal (nat j)" by (simp add: number_toString_def)
    then have "nat i = nat j" by (rule decimal_inj)
    with 1 show ?thesis by simp
  next
    case 2
    with eq have "decimal (nat (- i)) = decimal (nat (- j))" by (simp add: number_toString_def)
    then have "nat (- i) = nat (- j)" by (rule decimal_inj)
    with 2 show ?thesis by simp
  next
    case 3
    with eq have "hd (decimal (nat i)) = CHR ''-''" by (simp add: number_toString_def)
    then show ?thesis using hd_decimal_no_hyphen by blast
  next
    case 4
    with eq have "hd (decimal (nat j)) = CHR ''-''"
      by (simp add: number_toString_def) (metis list.sel(1))
    then show ?thesis using hd_decimal_no_hyphen by blast
  qed
qed

lemma nat_of_digits_zeros: "nat_of_digits (replicate k CHR ''0'' @ s) = nat_of_digits s"
proof -
  have "foldl (\<lambda>a c. 10 * a + digit_val c) 0 (replicate k CHR ''0'') = 0"
    by (induction k) (simp_all add: digit_val_def)
  then show ?thesis by (simp add: nat_of_digits_def)
qed

lemma nat_of_digits_zeroFill: "nat_of_digits (zeroFill n k) = n"
  by (simp add: zeroFill_def Let_def nat_of_digits_zeros nat_of_digits_decimal)

lemma zeroFill_inj: "zeroFill m k = zeroFill n k' \<Longrightarrow> m = n"
  by (metis nat_of_digits_zeroFill)

lemma zeroFill_no_hyphen: "CHR ''-'' \<notin> set (zeroFill n k)"
  using decimal_no_hyphen [of n] by (auto simp: zeroFill_def Let_def)

lemma length_decimal_lt_100: "n < 100 \<Longrightarrow> length (decimal n) \<le> 2"
proof -
  assume "n < 100"
  then have "n div 10 < 10" by simp
  then have "length (decimal (n div 10)) = 1"
    by (subst decimal.simps) simp
  then show ?thesis by (subst decimal.simps) simp
qed

lemma length_zeroFill_2: "n < 100 \<Longrightarrow> length (zeroFill n 2) = 2"
  using length_decimal_lt_100 [of n] by (simp add: zeroFill_def Let_def)

lemma split_at_hyphen:
  assumes "a @ CHR ''-'' # x = b @ CHR ''-'' # y" "CHR ''-'' \<notin> set a" "CHR ''-'' \<notin> set b"
  shows "a = b \<and> x = y"
  using assms
proof (induction a arbitrary: b)
  case Nil
  then show ?case by (cases b) auto
next
  case (Cons c a)
  then show ?case by (cases b) auto
qed

lemma format_YYYYMMDD_no_hyphen: "CHR ''-'' \<notin> set (format_YYYYMMDD m)"
  by (simp add: format_YYYYMMDD_def zeroFill_no_hyphen)

lemma format_YYYYMMDD_inj:
  assumes "valid_date d1" "valid_date d2" "format_YYYYMMDD d1 = format_YYYYMMDD d2"
  shows "year d1 = year d2 \<and> month d1 = month d2 \<and> date d1 = date d2"
proof -
  have l1: "length (zeroFill (month d1) 2) = 2" "length (zeroFill (date d1) 2) = 2"
    using assms(1) by (simp_all add: valid_date_def length_zeroFill_2)
  have l2: "length (zeroFill (month d2) 2) = 2" "length (zeroFill (date d2) 2) = 2"
    using assms(2) by (simp_all add: valid_date_def length_zeroFill_2)
  have "zeroFill (year d1) 4 @ (zeroFill (month d1) 2 @ zeroFill (date d1) 2)
      = zeroFill (year d2) 4 @ (zeroFill (month d2) 2 @ zeroFill (date d2) 2)"
    using assms(3) by (simp add: format_YYYYMMDD_def)
  then have y: "zeroFill (year d1) 4 = zeroFill (year d2) 4"
    and md: "zeroFill (month d1) 2 @ zeroFill (date d1) 2 = zeroFill (month d2) 2 @ zeroFill (date d2) 2"
    using l1 l2 by (simp_all add: append_eq_append_conv)
  from md l1 l2 have "zeroFill (month d1) 2 = zeroFill (month d2) 2"
    and "zeroFill (date d1) 2 = zeroFill (date d2) 2"
    by (simp_all add: append_eq_append_conv)
  with y show ?thesis by (blast dest: zeroFill_inj)
qed

section \<open>The reward key\<close>

text \<open>
  C7. The reward key \<^verbatim>\<open>`${formattedDate}-${athleteId}`\<close> is a function of the
  calendar day and the athlete id alone, and it has no collisions: for two calendar
  dates and two integer athlete ids, the keys are equal exactly when the days (year,
  month, day of month) are equal and the athlete ids are equal.
\<close>

theorem rewardsId_no_collision:
  assumes "valid_date d1" and "valid_date d2"
  shows "rewardsId (format_YYYYMMDD d1) (Some (JNum a1))
           = rewardsId (format_YYYYMMDD d2) (Some (JNum a2))
         \<longleftrightarrow> year d1 = year d2 \<and> month d1 = month d2 \<and> date d1 = date d2 \<and> a1 = a2"
proof
  assume "rewardsId (format_YYYYMMDD d1) (Some (JNum a1))
            = rewardsId (format_YYYYMMDD d2) (Some (JNum a2))"
  then have "format_YYYYMMDD d1 @ CHR ''-'' # number_toString a1
           = format_YYYYMMDD d2 @ CHR ''-'' # number_toString a2"
    by (simp add: rewardsId_def)
  then have "format_YYYYMMDD d1 = format_YYYYMMDD d2 \<and> number_toString a1 = number_toString a2"
    by (rule split_at_hyphen) (rule format_YYYYMMDD_no_hyphen)+
  then show "year d1 = year d2 \<and> month d1 = month d2 \<and> date d1 = date d2 \<and> a1 = a2"
    using format_YYYYMMDD_inj [OF assms] number_toString_inj by blast
next
  assume "year d1 = year d2 \<and> month d1 = month d2 \<and> date d1 = date d2 \<and> a1 = a2"
  then show "rewardsId (format_YYYYMMDD d1) (Some (JNum a1))
               = rewardsId (format_YYYYMMDD d2) (Some (JNum a2))"
    by (simp add: rewardsId_def format_YYYYMMDD_def)
qed

theorem rewardsId_no_collision_witness:
  "valid_date (now ex_env) \<and> valid_date ex_next_day
   \<and> rewardsId (format_YYYYMMDD (now ex_env)) (Some (JNum 42))
       \<noteq> rewardsId (format_YYYYMMDD ex_next_day) (Some (JNum 42))
   \<and> rewardsId (format_YYYYMMDD (now ex_env)) (Some (JNum 42))
       \<noteq> rewardsId (format_YYYYMMDD (now ex_env)) (Some (JNum 43))"
  using rewardsId_no_collision [of "now ex_env" ex_next_day 42 42]
    rewardsId_no_collision [of "now ex_env" "now ex_env" 42 43]
  by (simp add: valid_date_def ex_env_def ex_next_day_def)

section \<open>Subscription verification\<close>

text \<open>
  C4. For every webhook GET request: when \<^verbatim>\<open>hub.mode\<close> or
  \<^verbatim>\<open>hub.verify_token\<close> is absent the answer is 400; when both are there and
  \<^verbatim>\<open>hub.mode\<close> is not \<^verbatim>\<open>subscribe\<close> or the token differs from the configured
  secret the answer is 401; otherwise the answer is 200 with a JSON body whose key
  \<^verbatim>\<open>hub.challenge\<close> holds the value of the query parameter \<^verbatim>\<open>hub.challenge\<close>,
  unmodified. No collaborator is called and the store is unchanged.
\<close>

theorem webhook_get_verification:
  assumes "req_method r = ''GET''"
  shows "(query r ''hub.mode'' = None \<or> query r ''hub.verify_token'' = None
            \<longrightarrow> webhook e r s = (SendStatus 400, s))
       \<and> (query r ''hub.mode'' \<noteq> None \<and> query r ''hub.verify_token'' \<noteq> None
          \<and> (query r ''hub.mode'' \<noteq> Some ''subscribe''
              \<or> query r ''hub.verify_token'' \<noteq> Some (verify_token (strava e)))
            \<longrightarrow> webhook e r s = (SendStatus 401, s))
       \<and> (query r ''hub.mode'' = Some ''subscribe''
          \<and> query r ''hub.verify_token'' = Some (verify_token (strava e))
            \<longrightarrow> webhook e r s
                = (SendJson 200 [(''hub.challenge'', map_option JStr (query r ''hub.challenge''))], s))
       \<and> (\<forall>c. query r ''hub.mode'' = Some ''subscribe''
          \<and> query r ''hub.verify_token'' = Some (verify_token (strava e))
          \<and> query r ''hub.challenge'' = Some c
            \<longrightarrow> webhook e r s = (SendJson 200 [(''hub.challenge'', Some (JStr c))], s))"
  using assms by (auto simp: webhook_def webhookSubscriptionHandler_def Let_def)

theorem webhook_get_verification_witness:
  "webhook ex_env (ex_get [(''hub.mode'', ''subscribe''), (''hub.verify_token'', ''tok''),
                           (''hub.challenge'', ''15f7d1a91c1f40f8a748fd134752feb3'')]) (ex_db, [])
     = (SendJson 200 [(''hub.challenge'', Some (JStr ''15f7d1a91c1f40f8a748fd134752feb3''))], (ex_db, []))
   \<and> webhook ex_env (ex_get [(''hub.mode'', ''subscribe''), (''hub.verify_token'', ''wrong'')]) (ex_db, [])
     = (SendStatus 401, (ex_db, []))
   \<and> webhook ex_env (ex_get [(''hub.mode'', ''subscribe'')]) (ex_db, []) = (SendStatus 400, (ex_db, []))"
  using webhook_get_verification [of "ex_get [(''hub.mode'', ''subscribe''), (''hub.verify_token'', ''tok''),
                           (''hub.challenge'', ''15f7d1a91c1f40f8a748fd134752feb3'')]" ex_env "(ex_db, [])"]
    webhook_get_verification [of "ex_get [(''hub.mode'', ''subscribe''), (''hub.verify_token'', ''wrong'')]" ex_env "(ex_db, [])"]
    webhook_get_verification [of "ex_get [(''hub.mode'', ''subscribe'')]" ex_env "(ex_db, [])"]
  by (simp add: ex_get_def ex_env_def)

text \<open>
  C10. A webhook GET request with \<^verbatim>\<open>hub.mode=subscribe\<close> and the right
  \<^verbatim>\<open>hub.verify_token\<close> but without \<^verbatim>\<open>hub.challenge\<close> is accepted with 200, and
  the \<^verbatim>\<open>hub.challenge\<close> of the JSON body is \<^verbatim>\<open>undefined\<close>: the handler never
  checks that the challenge is there.
\<close>

theorem webhook_get_missing_challenge:
  assumes "req_method r = ''GET''"
    and "query r ''hub.mode'' = Some ''subscribe''"
    and "query r ''hub.verify_token'' = Some (verify_token (strava e))"
    and "query r ''hub.challenge'' = None"
  shows "webhook e r s = (SendJson 200 [(''hub.challenge'', None)], s)"
  using assms by (simp add: webhook_def webhookSubscriptionHandler_def)

theorem webhook_get_missing_challenge_witness:
  "query (ex_get [(''hub.mode'', ''subscribe''), (''hub.verify_token'', ''tok'')]) ''hub.challenge'' = None
   \<and> webhook ex_env (ex_get [(''hub.mode'', ''subscribe''), (''hub.verify_token'', ''tok'')]) (ex_db, [])
     = (SendJson 200 [(''hub.challenge'', None)], (ex_db, []))"
  using webhook_get_missing_challenge [of "ex_get [(''hub.mode'', ''subscribe''), (''hub.verify_token'', ''tok'')]" ex_env "(ex_db, [])"]
  by (simp add: ex_get_def ex_env_def)

section \<open>The status check\<close>

text \<open>
  C2 (what the code does). A GET status request with an address of valid format
  makes one query on the users collection and answers 500 when the query is rejected
  and 404 otherwise, whatever the collection holds: the handler tests
  \<^verbatim>\<open>user.exists\<close> on the result of a query, and a \<^verbatim>\<open>QuerySnapshot\<close> has no such
  property. The answer 200 of the claim is never given; the witness is a store that
  holds a link for the address asked for.
\<close>

theorem status_never_200:
  assumes "req_method r = ''GET''"
    and "query r ''dhealth.address'' = Some a"
    and "address_ok e a"
  shows "status e r (db, cs)
       = (if fails e (QueryGet Users ''address'' (JStr a)) then SendStatus 500 else SendStatus 404,
          (db, cs @ [QueryGet Users ''address'' (JStr a)]))"
  using assms by (simp add: status_def query_get_def Let_def)

theorem status_never_200_witness:
  "map_of (users ex_db) ''42'' = Some ex_user \<and> ex_user ''address'' = Some (JStr ex_address)
   \<and> status ex_env (ex_get [(''dhealth.address'', ex_address)]) (ex_db, [])
     = (SendStatus 404, (ex_db, [QueryGet Users ''address'' (JStr ex_address)]))"
  using status_never_200 [of "ex_get [(''dhealth.address'', ex_address)]" ex_address ex_env ex_db "[]"]
  by (simp add: ex_get_def ex_env_def ex_db_def ex_user_def ex_address_def)

section \<open>The address gate\<close>

text \<open>
  C5 (amended). A request to \<^verbatim>\<open>authorize\<close>, a GET request to \<^verbatim>\<open>status\<close>, and a
  request to \<^verbatim>\<open>link\<close> that does not carry \<^verbatim>\<open>error=access_denied\<close>, whose
  address parameter (\<^verbatim>\<open>dhealth.address\<close>, or \<^verbatim>\<open>state\<close> for link) is missing or
  fails the address validation, is answered 400 with no collaborator call and no change
  of the store. The counterexample shows the two guards that come first: a status
  request that is not a GET, and a link request that reports the user's denial, are
  answered 403 also when the address is missing.
\<close>

theorem address_gate:
  "(query r ''dhealth.address'' = None
      \<or> (\<exists>a. query r ''dhealth.address'' = Some a \<and> \<not> address_ok e a)
     \<longrightarrow> authorize e r s = (SendStatus 400, s))
   \<and> (req_method r = ''GET''
      \<and> (query r ''dhealth.address'' = None
          \<or> (\<exists>a. query r ''dhealth.address'' = Some a \<and> \<not> address_ok e a))
     \<longrightarrow> status e r s = (SendStatus 400, s))
   \<and> (query r ''error'' \<noteq> Some ''access_denied''
      \<and> (query r ''state'' = None \<or> (\<exists>a. query r ''state'' = Some a \<and> \<not> address_ok e a))
     \<longrightarrow> link e r s = (SendStatus 400, s))"
proof (intro conjI impI)
  assume "query r ''dhealth.address'' = None
      \<or> (\<exists>a. query r ''dhealth.address'' = Some a \<and> \<not> address_ok e a)"
  then show "authorize e r s = (SendStatus 400, s)"
    by (auto simp: authorize_def Let_def)
next
  assume "req_method r = ''GET''
      \<and> (query r ''dhealth.address'' = None
          \<or> (\<exists>a. query r ''dhealth.address'' = Some a \<and> \<not> address_ok e a))"
  then show "status e r s = (SendStatus 400, s)"
    by (auto simp: status_def Let_def)
next
  assume "query r ''error'' \<noteq> Some ''access_denied''
      \<and> (query r ''state'' = None \<or> (\<exists>a. query r ''state'' = Some a \<and> \<not> address_ok e a))"
  then show "link e r s = (SendStatus 400, s)"
    by (auto simp: link_def Let_def split: option.splits)
qed

theorem address_gate_witness:
  "authorize ex_env (ex_get [(''dhealth.address'', ''not-an-address'')]) (ex_db, []) = (SendStatus 400, (ex_db, []))
   \<and> status ex_env (ex_get []) (ex_db, []) = (SendStatus 400, (ex_db, []))
   \<and> link ex_env (ex_get [(''code'', ''abc''), (''scope'', ''activity:read''), (''state'', ''not-an-address'')]) (ex_db, [])
      = (SendStatus 400, (ex_db, []))"
  using address_gate [of "ex_get [(''dhealth.address'', ''not-an-address'')]" ex_env "(ex_db, [])"]
    address_gate [of "ex_get []" ex_env "(ex_db, [])"]
    address_gate [of "ex_get [(''code'', ''abc''), (''scope'', ''activity:read''), (''state'', ''not-an-address'')]" ex_env "(ex_db, [])"]
  by (simp add: ex_get_def ex_env_def)

theorem address_gate_counterexample:
  "query (ex_post []) ''dhealth.address'' = None
   \<and> status ex_env (ex_post []) (ex_db, []) = (SendStatus 403, (ex_db, []))
   \<and> query (ex_get [(''error'', ''access_denied'')]) ''state'' = None
   \<and> link ex_env (ex_get [(''error'', ''access_denied'')]) (ex_db, []) = (SendStatus 403, (ex_db, []))"
  by (simp add: ex_get_def ex_post_def status_def link_def)


section \<open>The link callback\<close>

lemma link_denied: "query r ''error'' = Some ''access_denied'' \<Longrightarrow> link e r s = (SendStatus 403, s)"
  by (simp add: link_def)

lemma link_missing:
  "query r ''error'' \<noteq> Some ''access_denied'' \<Longrightarrow>
   query r ''code'' = None \<or> query r ''scope'' = None \<or> query r ''state'' = None \<Longrightarrow>
   link e r s = (SendStatus 400, s)"
  by (auto simp: link_def Let_def split: option.splits)

lemma link_exchange:
  assumes "query r ''error'' \<noteq> Some ''access_denied''"
    and "query r ''code'' = Some stravaCode" "query r ''scope'' = Some scope"
    and "query r ''state'' = Some a" "address_ok e a"
  shows "link e r (db, cs) =
     (if fails e (token_request e stravaCode) then (SendStatus 400, (db, cs @ [token_request e stravaCode]))
      else link_saved e a (token_res e) (db, cs @ [token_request e stravaCode]))"
  using assms by (simp add: link_def Let_def axios_post_def token_request_def)

lemma fields_of_link:
  "fields_of [(''address'', Some (JStr a)), (''athleteId'', Some (JNum n)), (''accessToken'', Some t1),
              (''refreshToken'', Some t2), (''accessExpiresAt'', Some x), (''linkedAt'', Some (JNum ms))]
   = link_record a n t1 t2 x ms"
  by (rule ext) (simp add: fields_of_def link_record_def)

lemma link_saved_wellformed:
  assumes "athlete res = Some ath" "ath ''id'' = Some (JNum n)"
    and "access_token res = Some t1" "refresh_token res = Some t2" "expires_at res = Some x"
  shows "link_saved e a res (db, cs) =
     (if fails e (DocSet Users (number_toString n))
      then (SendStatus 500, (db, cs @ [DocSet Users (number_toString n)]))
      else (SendStatus 200,
            (db\<lparr>users := AList.update (number_toString n)
                    (stored (users db) (number_toString n) ++ link_record a n t1 t2 x (now_ms e)) (users db)\<rparr>,
             cs @ [DocSet Users (number_toString n)])))"
  using assms
  by (simp add: link_saved_def doc_set_merge_def Let_def fields_of_link stored_def)

lemma number_toString_42: "number_toString 42 = ''42''"
  by code_simp

lemma number_toString_99: "number_toString 99 = ''99''"
  by code_simp

lemma ex_day: "format_YYYYMMDD (now ex_env) = ''20211103''"
  by code_simp

lemma ex_activityAt: "format_activityAt (now ex_env) = ''2021-11-03 09:05:07 +01:00''"
  by code_simp

lemma ex_key: "rewardsId ''20211103'' (Some (JNum 42)) = ''20211103-42''"
  by (simp add: rewardsId_def number_toString_42)

lemma ex_key_now: "rewardsId (format_YYYYMMDD (now ex_env)) (Some (JNum 42)) = ''20211103-42''"
  by (simp add: ex_day ex_key)

lemma ex_fails: "fails ex_env c = False"
  by (simp add: ex_env_def)

lemma ex_user_fields:
  "ex_user ''address'' = Some (JStr ex_address)" "ex_user ''athleteId'' = Some (JNum 42)"
  by (simp_all add: ex_user_def)

lemma ex_event_fields:
  "req_method (ex_event n) = ''POST''" "shape_ok (ex_event n)" "activity_create (ex_event n)"
  "body (ex_event n) ''owner_id'' = Some (JNum 42)" "body (ex_event n) ''object_id'' = Some (JNum n)"
  by (simp_all add: ex_event_def ex_post_def shape_ok_def activity_create_def)

text \<open>
  C6. The link callback, for every request: the provider's
  \<^verbatim>\<open>error=access_denied\<close> is answered 403 and a missing \<^verbatim>\<open>code\<close>,
  \<^verbatim>\<open>scope\<close> or \<^verbatim>\<open>state\<close> 400, both with no collaborator call. With valid
  parameters (all three there, the state a valid address): a rejected token exchange
  is answered 400 after the one POST; when the exchange answers an athlete with an
  integer id, two tokens and an expiry, a rejected write is answered 500, and otherwise
  the users document of the athlete's id is merge-written with the LinkRecord (the
  state as address, the athlete id, the tokens, the expiry, the current time as
  \<^verbatim>\<open>linkedAt\<close>; other fields of the document stay) and the answer is 200.
\<close>

theorem link_callback:
  "(query r ''error'' = Some ''access_denied'' \<longrightarrow> link e r (db, cs) = (SendStatus 403, (db, cs)))
   \<and> (query r ''error'' \<noteq> Some ''access_denied''
      \<and> (query r ''code'' = None \<or> query r ''scope'' = None \<or> query r ''state'' = None)
      \<longrightarrow> link e r (db, cs) = (SendStatus 400, (db, cs)))
   \<and> (query r ''error'' \<noteq> Some ''access_denied''
      \<and> query r ''code'' = Some stravaCode \<and> query r ''scope'' = Some scope
      \<and> query r ''state'' = Some a \<and> address_ok e a
      \<longrightarrow> (fails e (token_request e stravaCode)
            \<longrightarrow> link e r (db, cs) = (SendStatus 400, (db, cs @ [token_request e stravaCode])))
        \<and> (\<not> fails e (token_request e stravaCode)
           \<and> athlete (token_res e) = Some ath \<and> ath ''id'' = Some (JNum n)
           \<and> access_token (token_res e) = Some t1 \<and> refresh_token (token_res e) = Some t2
           \<and> expires_at (token_res e) = Some x
           \<longrightarrow> (fails e (DocSet Users (number_toString n))
                 \<longrightarrow> link e r (db, cs)
                     = (SendStatus 500,
                        (db, cs @ [token_request e stravaCode, DocSet Users (number_toString n)])))
             \<and> (\<not> fails e (DocSet Users (number_toString n))
                 \<longrightarrow> link e r (db, cs)
                     = (SendStatus 200,
                        (db\<lparr>users := AList.update (number_toString n)
                              (stored (users db) (number_toString n)
                                 ++ link_record a n t1 t2 x (now_ms e)) (users db)\<rparr>,
                         cs @ [token_request e stravaCode, DocSet Users (number_toString n)])))))"
proof (intro conjI impI)
  assume "query r ''error'' = Some ''access_denied''"
  then show "link e r (db, cs) = (SendStatus 403, (db, cs))" by (rule link_denied)
next
  assume "query r ''error'' \<noteq> Some ''access_denied''
      \<and> (query r ''code'' = None \<or> query r ''scope'' = None \<or> query r ''state'' = None)"
  then show "link e r (db, cs) = (SendStatus 400, (db, cs))" by (simp add: link_missing)
next
  assume "query r ''error'' \<noteq> Some ''access_denied''
        \<and> query r ''code'' = Some stravaCode \<and> query r ''scope'' = Some scope
        \<and> query r ''state'' = Some a \<and> address_ok e a"
    and "fails e (token_request e stravaCode)"
  then show "link e r (db, cs) = (SendStatus 400, (db, cs @ [token_request e stravaCode]))"
    by (simp add: link_exchange)
next
  assume v: "query r ''error'' \<noteq> Some ''access_denied''
        \<and> query r ''code'' = Some stravaCode \<and> query r ''scope'' = Some scope
        \<and> query r ''state'' = Some a \<and> address_ok e a"
    and w: "\<not> fails e (token_request e stravaCode)
           \<and> athlete (token_res e) = Some ath \<and> ath ''id'' = Some (JNum n)
           \<and> access_token (token_res e) = Some t1 \<and> refresh_token (token_res e) = Some t2
           \<and> expires_at (token_res e) = Some x"
    and f: "fails e (DocSet Users (number_toString n))"
  from v w have "link e r (db, cs) = link_saved e a (token_res e) (db, cs @ [token_request e stravaCode])"
    by (simp add: link_exchange)
  with w f show "link e r (db, cs)
        = (SendStatus 500, (db, cs @ [token_request e stravaCode, DocSet Users (number_toString n)]))"
    by (simp add: link_saved_wellformed)
next
  assume v: "query r ''error'' \<noteq> Some ''access_denied''
        \<and> query r ''code'' = Some stravaCode \<and> query r ''scope'' = Some scope
        \<and> query r ''state'' = Some a \<and> address_ok e a"
    and w: "\<not> fails e (token_request e stravaCode)
           \<and> athlete (token_res e) = Some ath \<and> ath ''id'' = Some (JNum n)
           \<and> access_token (token_res e) = Some t1 \<and> refresh_token (token_res e) = Some t2
           \<and> expires_at (token_res e) = Some x"
    and f: "\<not> fails e (DocSet Users (number_toString n))"
  from v w have "link e r (db, cs) = link_saved e a (token_res e) (db, cs @ [token_request e stravaCode])"
    by (simp add: link_exchange)
  with w f show "link e r (db, cs)
        = (SendStatus 200,
             (db\<lparr>users := AList.update (number_toString n)
                   (stored (users db) (number_toString n) ++ link_record a n t1 t2 x (now_ms e)) (users db)\<rparr>,
              cs @ [token_request e stravaCode, DocSet Users (number_toString n)]))"
    by (simp add: link_saved_wellformed)
qed

theorem link_callback_witness:
  "link ex_env ex_link_request (\<lparr>users = [], rewards = []\<rparr>, [])
     = (SendStatus 200,
        (\<lparr>users = [(''42'', link_record ex_address 42 (JStr ''t'') (JStr ''r'') (JNum 123) 1635926707000)],
           rewards = []\<rparr>,
         [token_request ex_env ''abc'', DocSet Users ''42'']))
   \<and> link_record ex_address 42 (JStr ''t'') (JStr ''r'') (JNum 123) 1635926707000 ''accessToken''
     = Some (JStr ''t'')"
  using link_callback [of ex_link_request ex_env "\<lparr>users = [], rewards = []\<rparr>" "[]"
      "''abc''" "''activity:read''" ex_address "[''id'' \<mapsto> JNum 42]" 42 "JStr ''t''" "JStr ''r''" "JNum 123"]
  by (simp add: ex_link_request_def ex_get_def ex_env_def ex_address_def stored_def number_toString_42
      link_record_def)


section \<open>Event ingestion\<close>

lemma fields_of_reward:
  "fields_of [(''address'', Some a), (''athleteId'', Some i), (''activityId'', Some act),
              (''isProcessed'', Some (JBool False)), (''isConfirmed'', Some (JBool False)),
              (''rewardDay'', Some (JStr d)), (''activityAt'', Some (JStr t))]
   = reward_record a i act d t"
  by (rule ext) (simp add: fields_of_def reward_record_def)

lemma stored_absent: "map_of c i = None \<Longrightarrow> stored c i = Map.empty"
  by (simp add: stored_def)

text \<open>The event handler on a new-activity event, branch by branch.\<close>

lemma event_not_activity:
  assumes "shape_ok r" "\<not> activity_create r"
  shows "webhookEventHandler e r s = (Send 200 ''EVENT_IGNORED'', s)"
  using assms by (auto simp: webhookEventHandler_def shape_ok_def activity_create_def Let_def)

lemma event_try:
  assumes "shape_ok r" "activity_create r"
  shows "webhookEventHandler e r s =
     (case webhookEventTry e (body r) s of
        (Inr answer, s') \<Rightarrow> (answer, s')
      | (Inl reason, s') \<Rightarrow> (Send 200 ''EVENT_IGNORED'', s'))"
  using assms by (auto simp: webhookEventHandler_def shape_ok_def activity_create_def Let_def)

lemma try_user_rejected:
  assumes "fails e (DocGet Users (js_string (data ''owner_id'')))"
  shows "webhookEventTry e data (db, cs) =
     (Inl (StoreRejected (DocGet Users (js_string (data ''owner_id'')))),
      (db, cs @ [DocGet Users (js_string (data ''owner_id''))]))"
  using assms by (simp add: webhookEventTry_def doc_get_def Let_def)

lemma try_user_unknown:
  assumes "\<not> fails e (DocGet Users (js_string (data ''owner_id'')))"
    and "map_of (users db) (js_string (data ''owner_id'')) = None"
  shows "webhookEventTry e data (db, cs) =
     (Inr (Send 200 ''EVENT_IGNORED''), (db, cs @ [DocGet Users (js_string (data ''owner_id''))]))"
  using assms by (simp add: webhookEventTry_def doc_get_def Let_def)

lemma try_reward_rejected:
  assumes "\<not> fails e (DocGet Users (js_string (data ''owner_id'')))"
    and "map_of (users db) (js_string (data ''owner_id'')) = Some u"
    and "fails e (DocGet Rewards (rewardsId (format_YYYYMMDD (now e)) (u ''athleteId'')))"
  shows "webhookEventTry e data (db, cs) =
     (Inl (StoreRejected (DocGet Rewards (rewardsId (format_YYYYMMDD (now e)) (u ''athleteId'')))),
      (db, cs @ [DocGet Users (js_string (data ''owner_id'')),
                 DocGet Rewards (rewardsId (format_YYYYMMDD (now e)) (u ''athleteId''))]))"
  using assms by (simp add: webhookEventTry_def doc_get_def Let_def rewardsId_def)

lemma try_reward_present:
  assumes "\<not> fails e (DocGet Users (js_string (data ''owner_id'')))"
    and "map_of (users db) (js_string (data ''owner_id'')) = Some u"
    and "\<not> fails e (DocGet Rewards (rewardsId (format_YYYYMMDD (now e)) (u ''athleteId'')))"
    and "map_of (rewards db) (rewardsId (format_YYYYMMDD (now e)) (u ''athleteId'')) = Some d"
  shows "webhookEventTry e data (db, cs) =
     (Inr (Send 200 ''EVENT_IGNORED''),
      (db, cs @ [DocGet Users (js_string (data ''owner_id'')),
                 DocGet Rewards (rewardsId (format_YYYYMMDD (now e)) (u ''athleteId''))]))"
  using assms by (simp add: webhookEventTry_def doc_get_def Let_def rewardsId_def)

lemma try_write_refused:
  assumes "\<not> fails e (DocGet Users (js_string (data ''owner_id'')))"
    and "map_of (users db) (js_string (data ''owner_id'')) = Some u"
    and "\<not> fails e (DocGet Rewards (rewardsId (format_YYYYMMDD (now e)) (u ''athleteId'')))"
    and "map_of (rewards db) (rewardsId (format_YYYYMMDD (now e)) (u ''athleteId'')) = None"
    and "u ''address'' = None \<or> u ''athleteId'' = None \<or> data ''object_id'' = None"
  shows "webhookEventTry e data (db, cs) =
     (Inl InvalidArgument,
      (db, cs @ [DocGet Users (js_string (data ''owner_id'')),
                 DocGet Rewards (rewardsId (format_YYYYMMDD (now e)) (u ''athleteId'')),
                 DocSet Rewards (rewardsId (format_YYYYMMDD (now e)) (u ''athleteId''))]))"
  using assms by (auto simp: webhookEventTry_def doc_get_def doc_set_merge_def Let_def rewardsId_def)

lemma try_write_rejected:
  assumes "\<not> fails e (DocGet Users (js_string (data ''owner_id'')))"
    and "map_of (users db) (js_string (data ''owner_id'')) = Some u"
    and "\<not> fails e (DocGet Rewards (rewardsId (format_YYYYMMDD (now e)) (u ''athleteId'')))"
    and "map_of (rewards db) (rewardsId (format_YYYYMMDD (now e)) (u ''athleteId'')) = None"
    and "u ''address'' \<noteq> None" "u ''athleteId'' \<noteq> None" "data ''object_id'' \<noteq> None"
    and "fails e (DocSet Rewards (rewardsId (format_YYYYMMDD (now e)) (u ''athleteId'')))"
  shows "webhookEventTry e data (db, cs) =
     (Inl (StoreRejected (DocSet Rewards (rewardsId (format_YYYYMMDD (now e)) (u ''athleteId'')))),
      (db, cs @ [DocGet Users (js_string (data ''owner_id'')),
                 DocGet Rewards (rewardsId (format_YYYYMMDD (now e)) (u ''athleteId'')),
                 DocSet Rewards (rewardsId (format_YYYYMMDD (now e)) (u ''athleteId''))]))"
  using assms by (auto simp: webhookEventTry_def doc_get_def doc_set_merge_def Let_def rewardsId_def)

lemma try_write_done:
  assumes "\<not> fails e (DocGet Users (js_string (data ''owner_id'')))"
    and "map_of (users db) (js_string (data ''owner_id'')) = Some u"
    and "\<not> fails e (DocGet Rewards (rewardsId (format_YYYYMMDD (now e)) (u ''athleteId'')))"
    and "map_of (rewards db) (rewardsId (format_YYYYMMDD (now e)) (u ''athleteId'')) = None"
    and "u ''address'' = Some a" "u ''athleteId'' = Some i" "data ''object_id'' = Some act"
    and "\<not> fails e (DocSet Rewards (rewardsId (format_YYYYMMDD (now e)) (u ''athleteId'')))"
  shows "webhookEventTry e data (db, cs) =
     (Inr (Send 200 ''EVENT_RECEIVED''),
      (db\<lparr>rewards := AList.update (rewardsId (format_YYYYMMDD (now e)) (u ''athleteId''))
              (reward_record a i act (format_YYYYMMDD (now e)) (format_activityAt (now e)))
              (rewards db)\<rparr>,
       cs @ [DocGet Users (js_string (data ''owner_id'')),
             DocGet Rewards (rewardsId (format_YYYYMMDD (now e)) (u ''athleteId'')),
             DocSet Rewards (rewardsId (format_YYYYMMDD (now e)) (u ''athleteId''))]))"
proof -
  have "rewardsId (format_YYYYMMDD (now e)) (Some i) = rewardsId (format_YYYYMMDD (now e)) (u ''athleteId'')"
    using assms(6) by simp
  then show ?thesis
    using assms
    by (simp add: webhookEventTry_def doc_get_def doc_set_merge_def Let_def rewardsId_def
        fields_of_reward stored_absent)
qed


lemma webhook_post: "req_method r = ''POST'' \<Longrightarrow> webhook e r s = webhookEventHandler e r s"
  by (simp add: webhook_def)

text \<open>
  C8. A webhook POST event that passes the shape check and is not a new-activity event
  (its type is not \<^verbatim>\<open>activity\<close> or its aspect is not \<^verbatim>\<open>create\<close>), or whose
  \<^verbatim>\<open>owner_id\<close> names no document of the users collection, is answered 200
  \<^verbatim>\<open>EVENT_IGNORED\<close> and writes nothing: the database is unchanged, and the only
  call made, for a new-activity event, is the read of the user.
\<close>

theorem ignored_events_write_nothing:
  assumes post: "req_method r = ''POST''" and shape: "shape_ok r"
    and cls: "body r ''object_type'' \<noteq> Some (JStr ''activity'')
              \<or> body r ''aspect_type'' \<noteq> Some (JStr ''create'')
              \<or> map_of (users db) (js_string (body r ''owner_id'')) = None"
  shows "webhook e r (db, cs)
       = (Send 200 ''EVENT_IGNORED'',
          (db, cs @ (if activity_create r then [DocGet Users (js_string (body r ''owner_id''))] else [])))
       \<and> \<not> list_ex is_write (snd (snd (webhook e r (db, []))))"
proof (cases "activity_create r")
  case False
  with shape have "\<And>cs. webhookEventHandler e r (db, cs) = (Send 200 ''EVENT_IGNORED'', (db, cs))"
    by (simp add: event_not_activity)
  with post False show ?thesis by (simp add: webhook_post)
next
  case True
  with cls have unknown: "map_of (users db) (js_string (body r ''owner_id'')) = None"
    by (simp add: activity_create_def)
  show ?thesis
  proof (cases "fails e (DocGet Users (js_string (body r ''owner_id'')))")
    case True
    then show ?thesis
      using post shape \<open>activity_create r\<close>
      by (simp add: webhook_post event_try try_user_rejected)
  next
    case False
    then show ?thesis
      using post shape \<open>activity_create r\<close> unknown
      by (simp add: webhook_post event_try try_user_unknown)
  qed
qed

theorem ignored_events_write_nothing_witness:
  "webhook ex_env (ex_post [(''object_type'', JStr ''athlete''), (''object_id'', JNum 42),
                            (''aspect_type'', JStr ''update''), (''owner_id'', JNum 42)]) (ex_db, [])
     = (Send 200 ''EVENT_IGNORED'', (ex_db, []))
   \<and> webhook ex_env (ex_post [(''object_type'', JStr ''activity''), (''object_id'', JNum 7001),
                              (''aspect_type'', JStr ''create''), (''owner_id'', JNum 99)]) (ex_db, [])
     = (Send 200 ''EVENT_IGNORED'', (ex_db, [DocGet Users ''99'']))"
  using ignored_events_write_nothing [of "ex_post [(''object_type'', JStr ''athlete''), (''object_id'', JNum 42),
                            (''aspect_type'', JStr ''update''), (''owner_id'', JNum 42)]" ex_db ex_env "[]"]
    ignored_events_write_nothing [of "ex_post [(''object_type'', JStr ''activity''), (''object_id'', JNum 7001),
                              (''aspect_type'', JStr ''create''), (''owner_id'', JNum 99)]" ex_db ex_env "[]"]
  by (simp add: ex_post_def shape_ok_def activity_create_def number_toString_99 ex_db_def)

text \<open>
  C3. A webhook POST event that passes the shape check is always answered 200, with
  \<^verbatim>\<open>EVENT_IGNORED\<close> or \<^verbatim>\<open>EVENT_RECEIVED\<close>. When a collaborator call of the
  invocation is rejected (a store that throws on a read or on the write), and whenever
  the \<^verbatim>\<open>try\<close> block raises any exception, the answer is 200 \<^verbatim>\<open>EVENT_IGNORED\<close>
  and the database is unchanged.
\<close>

theorem webhook_event_always_200:
  assumes post: "req_method r = ''POST''" and shape: "shape_ok r"
    and res: "webhook e r (db, []) = (answer, (db', cs))"
  shows "status_code answer = 200
       \<and> (answer = Send 200 ''EVENT_IGNORED'' \<or> answer = Send 200 ''EVENT_RECEIVED'')
       \<and> ((\<exists>c \<in> set cs. fails e c) \<longrightarrow> answer = Send 200 ''EVENT_IGNORED'' \<and> db' = db)
       \<and> (activity_create r \<and> isl (fst (webhookEventTry e (body r) (db, [])))
            \<longrightarrow> answer = Send 200 ''EVENT_IGNORED'' \<and> db' = db)"
proof (cases "activity_create r")
  case False
  with shape have "webhookEventHandler e r (db, []) = (Send 200 ''EVENT_IGNORED'', (db, []))"
    by (rule event_not_activity)
  with post res False show ?thesis by (auto simp: webhook_post)
next
  case act: True
  let ?uid = "js_string (body r ''owner_id'')"
  from post shape act res
  have h: "(case webhookEventTry e (body r) (db, []) of
              (Inr a, s') \<Rightarrow> (a, s')
            | (Inl reason, s') \<Rightarrow> (Send 200 ''EVENT_IGNORED'', s')) = (answer, (db', cs))"
    by (simp add: webhook_post event_try)
  show ?thesis
  proof (cases "fails e (DocGet Users ?uid)")
    case True
    with h show ?thesis by (auto simp: try_user_rejected)
  next
    case c1: False
    show ?thesis
    proof (cases "map_of (users db) ?uid")
      case None
      with h c1 show ?thesis by (auto simp: try_user_unknown)
    next
      case (Some u)
      let ?key = "rewardsId (format_YYYYMMDD (now e)) (u ''athleteId'')"
      show ?thesis
      proof (cases "fails e (DocGet Rewards ?key)")
        case True
        with h c1 Some show ?thesis by (auto simp: try_reward_rejected)
      next
        case c2: False
        show ?thesis
        proof (cases "map_of (rewards db) ?key")
          case present: (Some d)
          with h c1 c2 Some show ?thesis by (auto simp: try_reward_present)
        next
          case absent: None
          show ?thesis
          proof (cases "u ''address'' = None \<or> u ''athleteId'' = None \<or> body r ''object_id'' = None")
            case True
            with h c1 c2 Some absent show ?thesis by (auto simp: try_write_refused)
          next
            case defined: False
            show ?thesis
            proof (cases "fails e (DocSet Rewards ?key)")
              case True
              with h c1 c2 Some absent defined show ?thesis by (auto simp: try_write_rejected)
            next
              case c3: False
              from defined obtain a i act' where
                "u ''address'' = Some a" "u ''athleteId'' = Some i" "body r ''object_id'' = Some act'"
                by auto
              with h c1 c2 c3 Some absent show ?thesis by (auto simp: try_write_done)
            qed
          qed
        qed
      qed
    qed
  qed
qed


lemma ex_write_rejected:
  "webhook ex_write_fails (ex_event 7001) (ex_db, [])
   = (Send 200 ''EVENT_IGNORED'',
      (ex_db, [DocGet Users ''42'', DocGet Rewards ''20211103-42'', DocSet Rewards ''20211103-42'']))"
proof -
  have k: "rewardsId (format_YYYYMMDD (now ex_write_fails)) (ex_user ''athleteId'') = ''20211103-42''"
    by (simp add: ex_write_fails_def ex_user_fields ex_key ex_key_now)
  have "webhookEventTry ex_write_fails (body (ex_event 7001)) (ex_db, [])
      = (Inl (StoreRejected (DocSet Rewards (rewardsId (format_YYYYMMDD (now ex_write_fails)) (ex_user ''athleteId'')))),
         (ex_db, [] @ [DocGet Users (js_string (body (ex_event 7001) ''owner_id'')),
               DocGet Rewards (rewardsId (format_YYYYMMDD (now ex_write_fails)) (ex_user ''athleteId'')),
               DocSet Rewards (rewardsId (format_YYYYMMDD (now ex_write_fails)) (ex_user ''athleteId''))]))"
    by (rule try_write_rejected)
      (simp_all add: k ex_write_fails_def ex_event_fields ex_user_fields number_toString_42 ex_db_def)
  then show ?thesis
    by (simp add: webhook_post event_try ex_event_fields k number_toString_42)
qed

theorem webhook_event_always_200_witness:
  "fails ex_write_fails (DocSet Rewards ''20211103-42'')
   \<and> snd (snd (webhook ex_write_fails (ex_event 7001) (ex_db, [])))
       = [DocGet Users ''42'', DocGet Rewards ''20211103-42'', DocSet Rewards ''20211103-42'']
   \<and> fst (webhook ex_write_fails (ex_event 7001) (ex_db, [])) = Send 200 ''EVENT_IGNORED''
   \<and> fst (snd (webhook ex_write_fails (ex_event 7001) (ex_db, []))) = ex_db"
proof -
  have "fails ex_write_fails (DocSet Rewards ''20211103-42'')"
    by (simp add: ex_write_fails_def)
  with webhook_event_always_200 [OF ex_event_fields(1) ex_event_fields(2) ex_write_rejected]
  show ?thesis by (simp add: ex_write_rejected)
qed

section \<open>Idempotent reward creation\<close>

lemma format_same_day: "same_day a b \<Longrightarrow> format_YYYYMMDD a = format_YYYYMMDD b"
  by (simp add: same_day_def format_YYYYMMDD_def)

lemma count_key:
  "distinct (map fst xs) \<Longrightarrow> map_of xs k = Some v \<Longrightarrow> length (filter (\<lambda>(k', d). k' = k) xs) = 1"
proof (induction xs)
  case Nil
  then show ?case by simp
next
  case (Cons x xs)
  obtain k' d where x: "x = (k', d)" by (cases x)
  show ?case
  proof (cases "k' = k")
    case True
    with Cons.prems x have "k \<notin> fst ` set xs" by auto
    then have "filter (\<lambda>(k', d). k' = k) xs = []"
      by (force simp: filter_empty_conv)
    with True x show ?thesis by simp
  next
    case False
    with Cons x show ?thesis by simp
  qed
qed

lemma event_on_present:
  assumes "req_method r = ''POST''" "shape_ok r" "activity_create r"
    and "\<not> fails e (DocGet Users (js_string (body r ''owner_id'')))"
    and "\<not> fails e (DocGet Rewards (rewardsId (format_YYYYMMDD (now e)) (u ''athleteId'')))"
    and "map_of (users db) (js_string (body r ''owner_id'')) = Some u"
    and "map_of (rewards db) (rewardsId (format_YYYYMMDD (now e)) (u ''athleteId'')) = Some d"
  shows "webhook e r (db, []) =
     (Send 200 ''EVENT_IGNORED'',
      (db, [DocGet Users (js_string (body r ''owner_id'')),
            DocGet Rewards (rewardsId (format_YYYYMMDD (now e)) (u ''athleteId''))]))"
  using assms by (simp add: webhook_post event_try try_reward_present)

lemma event_on_absent:
  assumes "req_method r = ''POST''" "shape_ok r" "activity_create r"
    and "\<not> fails e (DocGet Users (js_string (body r ''owner_id'')))"
    and "\<not> fails e (DocGet Rewards (rewardsId (format_YYYYMMDD (now e)) (u ''athleteId'')))"
    and "\<not> fails e (DocSet Rewards (rewardsId (format_YYYYMMDD (now e)) (u ''athleteId'')))"
    and "map_of (users db) (js_string (body r ''owner_id'')) = Some u"
    and "map_of (rewards db) (rewardsId (format_YYYYMMDD (now e)) (u ''athleteId'')) = None"
    and "u ''address'' = Some a" "u ''athleteId'' = Some i" "body r ''object_id'' = Some act"
  shows "webhook e r (db, []) =
     (Send 200 ''EVENT_RECEIVED'',
      (db\<lparr>rewards := AList.update (rewardsId (format_YYYYMMDD (now e)) (u ''athleteId''))
              (reward_record a i act (format_YYYYMMDD (now e)) (format_activityAt (now e)))
              (rewards db)\<rparr>,
       [DocGet Users (js_string (body r ''owner_id'')),
        DocGet Rewards (rewardsId (format_YYYYMMDD (now e)) (u ''athleteId'')),
        DocSet Rewards (rewardsId (format_YYYYMMDD (now e)) (u ''athleteId''))]))"
  using assms by (simp add: webhook_post event_try try_write_done)

lemma deliver_present:
  assumes "list_all (daily_event owner day (u ''athleteId'')) evs"
    and "map_of (users db) (js_string (Some owner)) = Some u"
    and "map_of (rewards db) (rewardsId (format_YYYYMMDD day) (u ''athleteId'')) = Some d"
  shows "deliver evs db =
     (map (\<lambda>ev. (Send 200 ''EVENT_IGNORED'',
                  [DocGet Users (js_string (Some owner)),
                   DocGet Rewards (rewardsId (format_YYYYMMDD day) (u ''athleteId''))])) evs, db)"
  using assms(1)
proof (induction evs)
  case Nil
  then show ?case by simp
next
  case (Cons ev evs)
  obtain e r where ev: "ev = (e, r)" by (cases ev)
  from Cons.prems ev have p: "req_method r = ''POST''" "shape_ok r" "activity_create r"
    "body r ''owner_id'' = Some owner" "same_day (now e) day"
    "\<not> fails e (DocGet Users (js_string (Some owner)))"
    "\<not> fails e (DocGet Rewards (rewardsId (format_YYYYMMDD day) (u ''athleteId'')))"
    by (simp_all add: daily_event_def)
  from p(5) have k: "rewardsId (format_YYYYMMDD (now e)) (u ''athleteId'')
                   = rewardsId (format_YYYYMMDD day) (u ''athleteId'')"
    by (simp add: format_same_day)
  have "webhook e r (db, []) =
     (Send 200 ''EVENT_IGNORED'',
      (db, [DocGet Users (js_string (body r ''owner_id'')),
            DocGet Rewards (rewardsId (format_YYYYMMDD (now e)) (u ''athleteId''))]))"
    using p assms(2,3) k by (intro event_on_present) simp_all
  moreover from Cons have "deliver evs db =
     (map (\<lambda>ev. (Send 200 ''EVENT_IGNORED'',
                  [DocGet Users (js_string (Some owner)),
                   DocGet Rewards (rewardsId (format_YYYYMMDD day) (u ''athleteId''))])) evs, db)"
    by simp
  ultimately show ?case using ev k p(4) by simp
qed

lemma ex_first_event:
  "webhook ex_env (ex_event 7001) (ex_db, [])
   = (Send 200 ''EVENT_RECEIVED'',
      (ex_rewarded, [DocGet Users ''42'', DocGet Rewards ''20211103-42'', DocSet Rewards ''20211103-42'']))"
  using event_on_absent [of "ex_event 7001" ex_env ex_user ex_db "JStr ex_address" "JNum 42" "JNum 7001"]
  by (simp add: ex_event_fields ex_user_fields ex_fails ex_key ex_key_now ex_day ex_activityAt number_toString_42
      ex_db_def ex_rewarded_def)

lemma ex_second_event:
  "webhook ex_env (ex_event n) (ex_rewarded, [])
   = (Send 200 ''EVENT_IGNORED'', (ex_rewarded, [DocGet Users ''42'', DocGet Rewards ''20211103-42'']))"
  using event_on_present [of "ex_event n" ex_env ex_user ex_rewarded]
  by (simp add: ex_event_fields ex_user_fields ex_fails ex_key ex_key_now number_toString_42
      ex_db_def ex_rewarded_def)

lemma ex_payout: "payout e (db, []) = (if fails e (QueryGet Rewards ''isProcessed'' (JBool False))
    then Inl (StoreRejected (QueryGet Rewards ''isProcessed'' (JBool False))) else Inr (),
    (db, [QueryGet Rewards ''isProcessed'' (JBool False)]))"
  by (simp add: payout_def query_get_def Let_def)

text \<open>
  C1. For a non-empty sequence of webhook POST new-activity events of one owner, who
  resolves to a link with an address and an athlete id, delivered one after the other
  on one calendar day with a store that accepts the calls: afterwards the rewards
  collection (with distinct ids at the start) holds exactly one record under the key of
  that day and athlete; every event after the first reads the user and the reward,
  finds the reward there and is answered 200 \<^verbatim>\<open>EVENT_IGNORED\<close> without a write;
  the database after the first event is the final one. When no record was there at the
  start, the first event is answered \<^verbatim>\<open>EVENT_RECEIVED\<close> and the record carries its
  activity id.
\<close>

theorem idempotent_reward_creation:
  assumes events: "list_all (daily_event owner day (u ''athleteId'')) ((e1, r1) # rest)"
    and user: "map_of (users db) (js_string (Some owner)) = Some u"
    and fields: "u ''address'' \<noteq> None" "u ''athleteId'' \<noteq> None"
    and ids: "distinct (map fst (rewards db))"
    and run: "deliver ((e1, r1) # rest) db = (out, db')"
  shows "length (filter (\<lambda>(k, d). k = rewardsId (format_YYYYMMDD day) (u ''athleteId'')) (rewards db')) = 1
       \<and> tl out = map (\<lambda>ev. (Send 200 ''EVENT_IGNORED'',
                              [DocGet Users (js_string (Some owner)),
                               DocGet Rewards (rewardsId (format_YYYYMMDD day) (u ''athleteId''))])) rest
       \<and> db' = fst (snd (webhook e1 r1 (db, [])))
       \<and> (map_of (rewards db) (rewardsId (format_YYYYMMDD day) (u ''athleteId'')) = None
            \<longrightarrow> fst (hd out) = Send 200 ''EVENT_RECEIVED''
              \<and> map_option (\<lambda>d. d ''activityId'') (map_of (rewards db') (rewardsId (format_YYYYMMDD day) (u ''athleteId'')))
                  = Some (body r1 ''object_id''))"
proof -
  let ?key = "rewardsId (format_YYYYMMDD day) (u ''athleteId'')"
  let ?ign = "\<lambda>ev :: env \<times> request. (Send 200 ''EVENT_IGNORED'',
                  [DocGet Users (js_string (Some owner)), DocGet Rewards ?key])"
  from events have p: "req_method r1 = ''POST''" "shape_ok r1" "activity_create r1"
    "body r1 ''owner_id'' = Some owner" "same_day (now e1) day"
    and acc: "\<not> fails e1 (DocGet Users (js_string (Some owner)))"
    "\<not> fails e1 (DocGet Rewards ?key)" "\<not> fails e1 (DocSet Rewards ?key)"
    and rest: "list_all (daily_event owner day (u ''athleteId'')) rest"
    by (simp_all add: daily_event_def)
  from p(5) have k: "rewardsId (format_YYYYMMDD (now e1)) (u ''athleteId'') = ?key"
    by (simp add: format_same_day)
  from user p(4) have user1: "map_of (users db) (js_string (body r1 ''owner_id'')) = Some u"
    by simp
  show ?thesis
  proof (cases "map_of (rewards db) ?key")
    case (Some d)
    have first: "webhook e1 r1 (db, []) =
       (Send 200 ''EVENT_IGNORED'',
        (db, [DocGet Users (js_string (body r1 ''owner_id'')),
              DocGet Rewards (rewardsId (format_YYYYMMDD (now e1)) (u ''athleteId''))]))"
      using p acc user1 Some k by (intro event_on_present) simp_all
    have later: "deliver rest db = (map ?ign rest, db)"
      using rest user Some by (rule deliver_present)
    from run first later have "db' = db" and "tl out = map ?ign rest" by auto
    moreover have "length (filter (\<lambda>(k, d). k = ?key) (rewards db)) = 1"
      using ids Some by (rule count_key)
    ultimately show ?thesis using Some first by simp
  next
    case None
    from fields p(2) obtain a i act where
      d: "u ''address'' = Some a" "u ''athleteId'' = Some i" "body r1 ''object_id'' = Some act"
      by (auto simp: shape_ok_def)
    let ?rec = "reward_record a i act (format_YYYYMMDD (now e1)) (format_activityAt (now e1))"
    let ?db1 = "db\<lparr>rewards := AList.update ?key ?rec (rewards db)\<rparr>"
    have "webhook e1 r1 (db, []) =
       (Send 200 ''EVENT_RECEIVED'',
        (db\<lparr>rewards := AList.update (rewardsId (format_YYYYMMDD (now e1)) (u ''athleteId'')) ?rec (rewards db)\<rparr>,
         [DocGet Users (js_string (body r1 ''owner_id'')),
          DocGet Rewards (rewardsId (format_YYYYMMDD (now e1)) (u ''athleteId'')),
          DocSet Rewards (rewardsId (format_YYYYMMDD (now e1)) (u ''athleteId''))]))"
      using p acc user1 None k d by (intro event_on_absent) simp_all
    then have first: "webhook e1 r1 (db, []) =
       (Send 200 ''EVENT_RECEIVED'',
        (?db1, [DocGet Users (js_string (body r1 ''owner_id'')),
                DocGet Rewards ?key, DocSet Rewards ?key]))"
      by (simp add: k)
    have present: "map_of (rewards ?db1) ?key = Some ?rec"
      by (simp add: update_conv')
    have "map_of (users ?db1) (js_string (Some owner)) = Some u"
      using user by simp
    with rest have later: "deliver rest ?db1 = (map ?ign rest, ?db1)"
      using present by (rule deliver_present)
    from run first later have out: "db' = ?db1" "tl out = map ?ign rest"
      "fst (hd out) = Send 200 ''EVENT_RECEIVED''" by auto
    have "distinct (map fst (rewards ?db1))"
      using ids by (simp add: distinct_update)
    then have "length (filter (\<lambda>(k, d). k = ?key) (rewards ?db1)) = 1"
      using present by (rule count_key)
    moreover have "?rec ''activityId'' = body r1 ''object_id''"
      using d(3) by (simp add: reward_record_def)
    ultimately show ?thesis using out first present by simp
  qed
qed

theorem idempotent_reward_creation_witness:
  "list_all (daily_event (JNum 42) (now ex_env) (Some (JNum 42))) ex_deliveries
   \<and> length (filter (\<lambda>(k, d). k = ''20211103-42'') (rewards (snd (deliver ex_deliveries ex_db)))) = 1
   \<and> fst (hd (fst (deliver ex_deliveries ex_db))) = Send 200 ''EVENT_RECEIVED''
   \<and> tl (fst (deliver ex_deliveries ex_db))
       = [(Send 200 ''EVENT_IGNORED'', [DocGet Users ''42'', DocGet Rewards ''20211103-42'']),
          (Send 200 ''EVENT_IGNORED'', [DocGet Users ''42'', DocGet Rewards ''20211103-42''])]
   \<and> map_option (\<lambda>d. d ''activityId'') (map_of (rewards (snd (deliver ex_deliveries ex_db))) ''20211103-42'')
       = Some (Some (JNum 7001))"
proof -
  have ev: "list_all (daily_event (JNum 42) (now ex_env) (ex_user ''athleteId''))
              ((ex_env, ex_event 7001) # [(ex_env, ex_event 7002), (ex_env, ex_event 7003)])"
    by (simp add: daily_event_def ex_event_fields same_day_def ex_fails)
  have u: "map_of (users ex_db) (js_string (Some (JNum 42))) = Some ex_user"
    by (simp add: ex_db_def number_toString_42)
  have f: "ex_user ''address'' \<noteq> None" "ex_user ''athleteId'' \<noteq> None"
    by (simp_all add: ex_user_fields)
  have i: "distinct (map fst (rewards ex_db))" by (simp add: ex_db_def)
  have r: "deliver ((ex_env, ex_event 7001) # [(ex_env, ex_event 7002), (ex_env, ex_event 7003)]) ex_db
         = (fst (deliver ex_deliveries ex_db), snd (deliver ex_deliveries ex_db))"
    by (simp add: ex_deliveries_def)
  have n: "map_of (rewards ex_db) ''20211103-42'' = None" by (simp add: ex_db_def)
  have ev': "list_all (daily_event (JNum 42) (now ex_env) (Some (JNum 42))) ex_deliveries"
    using ev by (simp add: ex_deliveries_def ex_user_fields)
  note t = idempotent_reward_creation [OF ev u f i r]
  have k: "rewardsId (format_YYYYMMDD (now ex_env)) (ex_user ''athleteId'') = ''20211103-42''"
    by (simp add: ex_user_fields ex_key ex_key_now)
  from t [THEN conjunct1]
  have c1: "length (filter (\<lambda>(k, d). k = ''20211103-42'') (rewards (snd (deliver ex_deliveries ex_db)))) = 1"
    by (simp add: k)
  from t [THEN conjunct2, THEN conjunct1]
  have c2: "tl (fst (deliver ex_deliveries ex_db))
       = [(Send 200 ''EVENT_IGNORED'', [DocGet Users ''42'', DocGet Rewards ''20211103-42'']),
          (Send 200 ''EVENT_IGNORED'', [DocGet Users ''42'', DocGet Rewards ''20211103-42''])]"
    by (simp add: k number_toString_42)
  from t [THEN conjunct2, THEN conjunct2, THEN conjunct2] n
  have c3: "fst (hd (fst (deliver ex_deliveries ex_db))) = Send 200 ''EVENT_RECEIVED''"
    and c4: "map_option (\<lambda>d. d ''activityId'') (map_of (rewards (snd (deliver ex_deliveries ex_db))) ''20211103-42'')
       = Some (Some (JNum 7001))"
    by (simp_all add: k ex_event_fields)
  from ev' c1 c2 c3 c4 show ?thesis by blast
qed

section \<open>The processed flag\<close>

lemma authorize_db: "fst (snd (authorize e r (db, cs))) = db"
  by (simp add: authorize_def Let_def split: option.splits)

lemma status_db: "fst (snd (status e r (db, cs))) = db"
  by (simp add: status_def query_get_def Let_def split: option.splits)

lemma subscribe_db: "fst (snd (subscribe e r (db, cs))) = db"
  by (simp add: subscribe_def axios_post_def Let_def)

lemma payout_db: "fst (snd (payout e (db, cs))) = db"
  by (simp add: payout_def query_get_def Let_def)

lemma link_saved_rewards: "rewards (fst (snd (link_saved e a res (db, cs)))) = rewards db"
  by (simp add: link_saved_def doc_set_merge_def Let_def split: option.splits)

lemma link_rewards: "rewards (fst (snd (link e r (db, cs)))) = rewards db"
  by (simp add: link_def axios_post_def Let_def link_saved_rewards split: option.splits)

lemma subscription_db: "fst (snd (webhookSubscriptionHandler e r (db, cs))) = db"
  by (simp add: webhookSubscriptionHandler_def Let_def)

lemma event_db:
  "fst (snd (webhookEventHandler e r (db, cs))) = db
   \<or> (\<exists>key rec. map_of (rewards db) key = None \<and> rec ''isProcessed'' = Some (JBool False)
        \<and> fst (snd (webhookEventHandler e r (db, cs))) = db\<lparr>rewards := AList.update key rec (rewards db)\<rparr>)"
proof (cases "shape_ok r \<and> activity_create r")
  case False
  then show ?thesis
    by (auto simp: webhookEventHandler_def shape_ok_def activity_create_def Let_def)
next
  case True
  then have h: "webhookEventHandler e r (db, cs) =
     (case webhookEventTry e (body r) (db, cs) of
        (Inr answer, s') \<Rightarrow> (answer, s')
      | (Inl reason, s') \<Rightarrow> (Send 200 ''EVENT_IGNORED'', s'))"
    by (simp add: event_try)
  let ?uid = "js_string (body r ''owner_id'')"
  show ?thesis
  proof (cases "fails e (DocGet Users ?uid)")
    case True
    then show ?thesis by (simp add: h try_user_rejected)
  next
    case c1: False
    show ?thesis
    proof (cases "map_of (users db) ?uid")
      case None
      with c1 show ?thesis by (simp add: h try_user_unknown)
    next
      case (Some u)
      let ?key = "rewardsId (format_YYYYMMDD (now e)) (u ''athleteId'')"
      show ?thesis
      proof (cases "fails e (DocGet Rewards ?key)")
        case True
        with c1 Some show ?thesis by (simp add: h try_reward_rejected)
      next
        case c2: False
        show ?thesis
        proof (cases "map_of (rewards db) ?key")
          case present: (Some d)
          with c1 c2 Some show ?thesis by (simp add: h try_reward_present)
        next
          case absent: None
          show ?thesis
          proof (cases "u ''address'' = None \<or> u ''athleteId'' = None \<or> body r ''object_id'' = None")
            case True
            with c1 c2 Some absent show ?thesis by (simp add: h try_write_refused)
          next
            case defined: False
            show ?thesis
            proof (cases "fails e (DocSet Rewards ?key)")
              case True
              with c1 c2 Some absent defined show ?thesis by (simp add: h try_write_rejected)
            next
              case c3: False
              from defined obtain a i act' where
                d: "u ''address'' = Some a" "u ''athleteId'' = Some i" "body r ''object_id'' = Some act'"
                by auto
              have "reward_record a i act' (format_YYYYMMDD (now e)) (format_activityAt (now e))
                      ''isProcessed'' = Some (JBool False)"
                by (simp add: reward_record_def)
              with c1 c2 c3 Some absent d show ?thesis
                by (auto simp: h try_write_done)
            qed
          qed
        qed
      qed
    qed
  qed
qed

lemma webhook_db:
  "fst (snd (webhook e r (db, cs))) = db
   \<or> (\<exists>key rec. map_of (rewards db) key = None \<and> rec ''isProcessed'' = Some (JBool False)
        \<and> fst (snd (webhook e r (db, cs))) = db\<lparr>rewards := AList.update key rec (rewards db)\<rparr>)"
  using event_db [of e r db cs] by (simp add: webhook_def subscription_db)

lemma exec_rewards:
  "rewards (exec e op db) = rewards db
   \<or> (\<exists>key rec. map_of (rewards db) key = None \<and> rec ''isProcessed'' = Some (JBool False)
        \<and> rewards (exec e op db) = AList.update key rec (rewards db))"
proof (cases op)
  case (Webhook r)
  from webhook_db [of e r db "[]"] show ?thesis
  proof
    assume "fst (snd (webhook e r (db, []))) = db"
    with Webhook show ?thesis by simp
  next
    assume "\<exists>key rec. map_of (rewards db) key = None \<and> rec ''isProcessed'' = Some (JBool False)
        \<and> fst (snd (webhook e r (db, []))) = db\<lparr>rewards := AList.update key rec (rewards db)\<rparr>"
    then obtain key rec where "map_of (rewards db) key = None" "rec ''isProcessed'' = Some (JBool False)"
      "fst (snd (webhook e r (db, []))) = db\<lparr>rewards := AList.update key rec (rewards db)\<rparr>"
      by blast
    with Webhook have "map_of (rewards db) key = None \<and> rec ''isProcessed'' = Some (JBool False)
        \<and> rewards (exec e op db) = AList.update key rec (rewards db)"
      by simp
    then show ?thesis by blast
  qed
qed (simp_all add: authorize_db status_db subscribe_db payout_db link_rewards unlink_def unsubscribe_def)

lemma exec_distinct_rewards:
  "distinct (map fst (rewards db)) \<Longrightarrow> distinct (map fst (rewards (exec e op db)))"
  using exec_rewards [of e op db] by (auto simp: distinct_update)

lemma run_distinct_rewards:
  "distinct (map fst (rewards db)) \<Longrightarrow> distinct (map fst (rewards (run ops db)))"
proof (induction ops arbitrary: db)
  case Nil
  then show ?case by simp
next
  case (Cons x ops)
  obtain e op where "x = (e, op)" by (cases x)
  with Cons show ?case by (simp add: exec_distinct_rewards)
qed

lemma exec_keeps: "map_of (rewards db) k = Some d \<Longrightarrow> map_of (rewards (exec e op db)) k = Some d"
  using exec_rewards [of e op db] by (auto simp: update_conv')

lemma exec_creates_unprocessed:
  "map_of (rewards db) k = None \<Longrightarrow> map_of (rewards (exec e op db)) k = Some d
   \<Longrightarrow> d ''isProcessed'' = Some (JBool False)"
  using exec_rewards [of e op db] by (auto simp: update_conv' split: if_splits)

lemma run_keeps: "map_of (rewards db) k = Some d \<Longrightarrow> map_of (rewards (run ops db)) k = Some d"
proof (induction ops arbitrary: db)
  case Nil
  then show ?case by simp
next
  case (Cons x ops)
  obtain e op where "x = (e, op)" by (cases x)
  with Cons show ?case by (simp add: exec_keeps)
qed

lemma run_creates_unprocessed:
  "map_of (rewards db) k = None \<Longrightarrow> map_of (rewards (run ops db)) k = Some d
   \<Longrightarrow> d ''isProcessed'' = Some (JBool False)"
proof (induction ops arbitrary: db)
  case Nil
  then show ?case by simp
next
  case (Cons x ops)
  obtain e op where x: "x = (e, op)" by (cases x)
  show ?case
  proof (cases "map_of (rewards (exec e op db)) k")
    case None
    with Cons x show ?thesis by simp
  next
    case (Some d1)
    then have "map_of (rewards (run ops (exec e op db))) k = Some d1" by (rule run_keeps)
    with Cons.prems x have "d = d1" by simp
    with Cons.prems(1) Some show ?thesis by (simp add: exec_creates_unprocessed)
  qed
qed

lemma ex_run: "run ex_operations ex_db = ex_rewarded"
  by (simp add: ex_operations_def ex_first_event ex_second_event ex_payout ex_fails)

text \<open>
  C9 (amended). Through every sequence of invocations of the cloud functions and of
  the payout sweep: a reward record that exists is never changed, so its
  \<^verbatim>\<open>isProcessed\<close> flag is never set or cleared by any operation; a reward record
  created on the way has \<^verbatim>\<open>isProcessed\<close> false; and the payout sweep changes
  nothing in the store. The flip to true of the claim is deliberately absent: the
  payout is not implemented (the body of the job ends at
  \<^verbatim>\<open>//XXX proceed to payout\<close>), no payout is ever confirmed, and the flag stays
  false.
\<close>

theorem isProcessed_never_changes:
  "(map_of (rewards db) k = Some d \<longrightarrow> map_of (rewards (run ops db)) k = Some d)
   \<and> (map_of (rewards db) k = None \<and> map_of (rewards (run ops db)) k = Some d
        \<longrightarrow> d ''isProcessed'' = Some (JBool False))
   \<and> exec e Payout db = db"
  by (auto simp: run_keeps payout_db dest: run_creates_unprocessed)


theorem isProcessed_never_changes_witness:
  "map_of (rewards ex_db) ''20211103-42'' = None
   \<and> map_option (\<lambda>d. d ''isProcessed'') (map_of (rewards (run ex_operations ex_db)) ''20211103-42'')
       = Some (Some (JBool False))
   \<and> exec ex_env Payout ex_rewarded = ex_rewarded"
proof -
  let ?d = "reward_record (JStr ex_address) (JNum 42) (JNum 7001) ''20211103'' ''2021-11-03 09:05:07 +01:00''"
  have a: "map_of (rewards ex_db) ''20211103-42'' = None" by (simp add: ex_db_def)
  have b: "map_of (rewards (run ex_operations ex_db)) ''20211103-42'' = Some ?d"
    by (simp add: ex_run ex_rewarded_def)
  from isProcessed_never_changes [of ex_db "''20211103-42''" ?d ex_operations ex_env] a b
  have "?d ''isProcessed'' = Some (JBool False)" by blast
  moreover from isProcessed_never_changes [of ex_rewarded "''20211103-42''" ?d "[]" ex_env]
  have "exec ex_env Payout ex_rewarded = ex_rewarded" by blast
  ultimately show ?thesis using a b by simp
qed

text \<open>
  The counterexample to the flip of C9: the sweep selects the unprocessed record of
  athlete 42, completes, and leaves its flag false, and so does the next sweep. The
  flag of this record never flips to true.
\<close>

theorem payout_does_not_flip_counterexample:
  "map fst (filter (\<lambda>(i, d). d ''isProcessed'' = Some (JBool False)) (rewards ex_rewarded)) = [''20211103-42'']
   \<and> payout ex_env (ex_rewarded, []) = (Inr (), (ex_rewarded, [QueryGet Rewards ''isProcessed'' (JBool False)]))
   \<and> map_option (\<lambda>d. d ''isProcessed'')
        (map_of (rewards (run [(ex_env, Webhook (ex_event 7001)), (ex_env, Payout), (ex_env, Payout)] ex_db))
           ''20211103-42'')
       = Some (Some (JBool False))"
  by (simp add: ex_first_event ex_payout ex_fails ex_rewarded_def reward_record_def)


end
